theory Spec2Isabelle
  imports Main
begin

section \<open>Identity and compliance API: a model of \<open>main.py\<close>\<close>

text \<open>
  The three identity endpoints of \<open>main.py\<close> (\<open>start_otp\<close>, \<open>verify_otp\<close>,
  \<open>register_identity\<close>) and their helpers (\<open>normalize_phone\<close>, \<open>get_latest_otp\<close>,
  \<open>kyc_rule_engine\<close>) are embedded as HOL functions. The global \<open>db\<close> handle is an
  explicit argument of type \<open>store option\<close> (\<open>None\<close> is Python's \<open>db is None\<close>), and every
  endpoint returns its outcome together with the store after the call, so that a raised
  \<open>HTTPException\<close> and the writes made before it are both visible. Each call of
  \<open>datetime.now\<close> and the raw output of the random generator are inputs of the model.

  Text is ASCII: a \<open>char\<close> is one code point, and the case mappings and the whitespace
  class below are Python's restricted to ASCII.
\<close>

subsection \<open>Strings\<close>

text \<open>\<open>str.isspace\<close> on ASCII: tab, line feed, vertical tab, form feed, carriage return,
  the four separators \<open>0x1C\<close> to \<open>0x1F\<close>, and the space.\<close>

definition isspace :: "char \<Rightarrow> bool" where
  "isspace c = (c \<in> set [CHR 0x09, CHR 0x0A, CHR 0x0B, CHR 0x0C, CHR 0x0D,
                          CHR 0x1C, CHR 0x1D, CHR 0x1E, CHR 0x1F, CHR '' ''])"

text \<open>\<open>s.strip()\<close>: leading and trailing whitespace removed.\<close>

definition strip :: "string \<Rightarrow> string" where
  "strip s = rev (dropWhile isspace (rev (dropWhile isspace s)))"

text \<open>\<open>s.replace(c, "")\<close> for a one-character pattern \<open>c\<close>: every occurrence removed.\<close>

definition remove_all :: "char \<Rightarrow> string \<Rightarrow> string" where
  "remove_all c s = filter (\<lambda>x. x \<noteq> c) s"

text \<open>\<open>s.startswith(p)\<close>.\<close>

definition startswith :: "string \<Rightarrow> string \<Rightarrow> bool" where
  "startswith s p = (take (length p) s = p)"

text \<open>\<open>sub in s\<close>: \<open>sub\<close> occurs in \<open>s\<close> as a contiguous block.\<close>

fun contains :: "string \<Rightarrow> string \<Rightarrow> bool" where
  "contains [] sub = (sub = [])"
| "contains (x # xs) sub = (startswith (x # xs) sub \<or> contains xs sub)"

definition upper_char :: "char \<Rightarrow> char" where
  "upper_char c =
     (case map_of (zip ''abcdefghijklmnopqrstuvwxyz'' ''ABCDEFGHIJKLMNOPQRSTUVWXYZ'') c of
        Some u \<Rightarrow> u
      | None \<Rightarrow> c)"

definition lower_char :: "char \<Rightarrow> char" where
  "lower_char c =
     (case map_of (zip ''ABCDEFGHIJKLMNOPQRSTUVWXYZ'' ''abcdefghijklmnopqrstuvwxyz'') c of
        Some l \<Rightarrow> l
      | None \<Rightarrow> c)"

definition upper :: "string \<Rightarrow> string" where
  "upper s = map upper_char s"

definition lower :: "string \<Rightarrow> string" where
  "lower s = map lower_char s"








subsection \<open>\<open>normalize_phone\<close>\<close>

definition normalize_phone :: "string \<Rightarrow> string" where
  "normalize_phone msisdn0 =
     (let msisdn = remove_all CHR '' '' (strip msisdn0) in
      if \<not> startswith msisdn ''+'' then
        (if startswith msisdn ''00'' then ''+'' @ drop 2 msisdn else msisdn)
      else msisdn)"

subsection \<open>Documents and the store\<close>

text \<open>A \<open>datetime\<close> is a count of microseconds since the epoch, the resolution of Python's
  \<open>datetime\<close>; \<open>timedelta(minutes=m)\<close> is \<open>m\<close> times sixty million of them.\<close>

type_synonym datetime = int


text \<open>Modelled from the spec: \<open>schemas.OtpSession\<close> and \<open>schemas.Identity\<close> are not under
  \<open>src/\<close>. Their fields are the keyword arguments \<open>main.py\<close> constructs them with, with the
  types of the spec's data model.\<close>

record OtpSession =
  phone :: string
  code :: string
  expires_at :: datetime
  verified :: bool

record Identity =
  phone :: string
  name :: string
  email :: string
  country :: "string option"
  faith_affirmation :: bool

text \<open>A stored document is the schema object extended with the time stamps the store keeps.
  \<open>updated_at\<close> is \<open>None\<close> until an update sets it. Every document enters its collection
  through its schema, so each field is present and the defaults of \<open>rec.get(...)\<close> in
  \<open>main.py\<close> are never taken.\<close>

record OtpSession_doc = OtpSession +
  created_at :: datetime
  updated_at :: "datetime option"

record Identity_doc = Identity +
  created_at :: datetime
  updated_at :: "datetime option"

text \<open>The database: two collections. A collection is the list of its documents in insertion
  order; nothing in \<open>main.py\<close> deletes a document, so a document's position never changes and
  serves as its \<open>_id\<close>.\<close>

record store =
  otpsession :: "OtpSession_doc list"
  identity :: "Identity_doc list"


definition create_document_identity :: "store \<Rightarrow> datetime \<Rightarrow> Identity \<Rightarrow> nat \<times> store" where
  "create_document_identity st t data =
     (length (identity st),
      st\<lparr>identity := identity st @
           [\<lparr>Identity.phone = Identity.phone data,
             Identity.name = Identity.name data,
             Identity.email = Identity.email data,
             Identity.country = Identity.country data,
             Identity.faith_affirmation = Identity.faith_affirmation data,
             Identity_doc.created_at = t,
             Identity_doc.updated_at = None\<rparr>]\<rparr>)"

text \<open>\<open>collection.find(filter)\<close>: the matching documents in insertion order, each with its
  \<open>_id\<close>. \<open>find_one\<close> is the first of them.\<close>

definition find_docs :: "('d \<Rightarrow> bool) \<Rightarrow> 'd list \<Rightarrow> (nat \<times> 'd) list" where
  "find_docs flt coll = filter (\<lambda>(i, d). flt d) (enumerate 0 coll)"

definition find_one :: "('d \<Rightarrow> bool) \<Rightarrow> 'd list \<Rightarrow> (nat \<times> 'd) option" where
  "find_one flt coll = (case find_docs flt coll of [] \<Rightarrow> None | r # _ \<Rightarrow> Some r)"

text \<open>\<open>cursor.sort(key, -1)\<close>: descending by \<open>key\<close>. Documents with equal keys stay in
  insertion order (the database leaves their order open; the model fixes it).\<close>

definition sort_desc :: "('d \<Rightarrow> int) \<Rightarrow> (nat \<times> 'd) list \<Rightarrow> (nat \<times> 'd) list" where
  "sort_desc key rs = sort_key (\<lambda>(i, d). - key d) rs"

text \<open>\<open>collection.update_one({"_id": oid}, {"$set": ...})\<close>, the \<open>$set\<close> given as a function
  on the document; when no document has the \<open>_id\<close>, nothing changes.\<close>

definition update_one :: "nat \<Rightarrow> ('d \<Rightarrow> 'd) \<Rightarrow> 'd list \<Rightarrow> 'd list" where
  "update_one oid upd coll = (if oid < length coll then coll[oid := upd (coll ! oid)] else coll)"

subsection \<open>Requests, responses, errors\<close>

record StartOtpRequest =
  phone :: string

record VerifyOtpRequest =
  phone :: string
  code :: string

record RegisterIdentityRequest =
  phone :: string
  name :: string
  email :: string
  country :: "string option"
  faith_affirmation :: bool

text \<open>The JSON values the endpoints return and raise: strings, integers, lists, and
  dictionaries as association lists in the order the source writes the keys.\<close>

datatype json = Str string | Num int | Arr "json list" | Obj "(string \<times> json) list"

datatype HTTPException = HTTPException (status_code: nat) (detail: json)


type_synonym 'a outcome = "(HTTPException + 'a) \<times> store option"

subsection \<open>The OTP endpoints\<close>

definition get_latest_otp :: "store \<Rightarrow> string \<Rightarrow> (nat \<times> OtpSession_doc) option" where
  "get_latest_otp st phone' =
     (let records = take 1 (sort_desc OtpSession_doc.created_at
                      (find_docs (\<lambda>d. OtpSession.phone d = phone') (otpsession st)))
      in case records of [] \<Rightarrow> None | r # _ \<Rightarrow> Some r)"

text \<open>\<open>random.randint(a, b)\<close> with \<open>a \<le> b\<close>, as in its one call in \<open>main.py\<close> (on an empty
  range Python raises \<open>ValueError\<close>): an integer between \<open>a\<close> and \<open>b\<close>, both included.
  Which one is up to the generator, whose raw output \<open>rng\<close> is an input: it is reduced
  into the \<open>b - a + 1\<close> values of the range.\<close>

definition randint :: "int \<Rightarrow> int \<Rightarrow> nat \<Rightarrow> int" where
  "randint a b rng = a + int (rng mod nat (b - a + 1))"


text \<open>\<open>verify_otp\<close>: \<open>now\<close> is the clock reading of line 127, \<open>now'\<close> the one written
  to \<open>updated_at\<close> on line 133.\<close>

definition verify_otp ::
  "store option \<Rightarrow> datetime \<Rightarrow> datetime \<Rightarrow> VerifyOtpRequest \<Rightarrow> json outcome" where
  "verify_otp db now now' payload =
     (case db of
        None \<Rightarrow> (Inl (HTTPException 500 (Str ''Database not available'')), db)
      | Some st \<Rightarrow>
          let phone' = normalize_phone (VerifyOtpRequest.phone payload) in
          (case get_latest_otp st phone' of
             None \<Rightarrow> (Inl (HTTPException 404 (Str ''No OTP session found'')), db)
           | Some (oid, rec) \<Rightarrow>
               if now > OtpSession.expires_at rec then
                 (Inl (HTTPException 400 (Str ''OTP expired'')), db)
               else if VerifyOtpRequest.code payload \<noteq> OtpSession.code rec then
                 (Inl (HTTPException 400 (Str ''Invalid code'')), db)
               else
                 (Inr (Obj [(''status'', Str ''VERIFIED''), (''phone'', Str phone')]),
                  Some (st\<lparr>otpsession :=
                    update_one oid
                      (\<lambda>d. d\<lparr>OtpSession.verified := True,
                              OtpSession_doc.updated_at := Some now'\<rparr>)
                      (otpsession st)\<rparr>))))"

subsection \<open>The compliance check and registration\<close>

record kyc_result =
  pass :: bool
  flags :: "string list"

text \<open>\<open>if country and ...\<close>: Python's truth value of an \<open>Optional[str]\<close> is false for
  \<open>None\<close> and for the empty string.\<close>

definition truthy :: "string option \<Rightarrow> bool" where
  "truthy s = (case s of None \<Rightarrow> False | Some v \<Rightarrow> v \<noteq> [])"

text \<open>\<open>flags0\<close>, \<open>flags1\<close>, \<open>flags2\<close> are the list \<open>flags\<close> of the source at its creation and
  after each of the two \<open>if\<close> statements.\<close>

definition kyc_rule_engine :: "string option \<Rightarrow> string \<Rightarrow> string \<Rightarrow> kyc_result" where
  "kyc_rule_engine country' name' email' =
     (let flags0 = [];
          flags1 = (if truthy country' \<and>
                       upper (the country') \<notin>
                         set [''CI'', ''SN'', ''BJ'', ''TG'', ''CM'', ''GA'', ''CG'', ''CD'']
                    then flags0 @ [''COUNTRY_UNSUPPORTED''] else flags0);
          flags2 = (if list_ex (\<lambda>bad. contains (lower name') bad) [''test'', ''fake'', ''demo'']
                    then flags1 @ [''SUSPECT_NAME''] else flags1)
      in \<lparr>pass = (length flags2 = 0), flags = flags2\<rparr>)"

text \<open>\<open>register_identity\<close>: \<open>now\<close> is the clock reading the call makes, on line 175 when it
  updates and inside \<open>create_document\<close> when it inserts.\<close>

definition register_identity ::
  "store option \<Rightarrow> datetime \<Rightarrow> RegisterIdentityRequest \<Rightarrow> json outcome" where
  "register_identity db now payload =
     (case db of
        None \<Rightarrow> (Inl (HTTPException 500 (Str ''Database not available'')), db)
      | Some st \<Rightarrow>
          let phone' = normalize_phone (RegisterIdentityRequest.phone payload) in
          (case get_latest_otp st phone' of
             None \<Rightarrow> (Inl (HTTPException 400 (Str ''Phone not verified via OTP'')), db)
           | Some (oid, rec) \<Rightarrow>
               if \<not> OtpSession.verified rec then
                 (Inl (HTTPException 400 (Str ''Phone not verified via OTP'')), db)
               else if \<not> RegisterIdentityRequest.faith_affirmation payload then
                 (Inl (HTTPException 400 (Str ''Faith affirmation is required'')), db)
               else
                 let kyc = kyc_rule_engine (RegisterIdentityRequest.country payload)
                             (RegisterIdentityRequest.name payload)
                             (RegisterIdentityRequest.email payload) in
                 if \<not> pass kyc then
                   (Inl (HTTPException 400
                          (Obj [(''message'', Str ''KYC checks failed''),
                                (''flags'', Arr (map Str (flags kyc)))])), db)
                 else
                   (case find_one (\<lambda>d. Identity.phone d = phone') (identity st) of
                      Some (eid, existing) \<Rightarrow>
                        (Inr (Obj [(''status'', Str ''UPDATED''), (''phone'', Str phone')]),
                         Some (st\<lparr>identity :=
                           update_one eid
                             (\<lambda>d. d\<lparr>Identity.name := RegisterIdentityRequest.name payload,
                                     Identity.email := RegisterIdentityRequest.email payload,
                                     Identity.country := RegisterIdentityRequest.country payload,
                                     Identity.faith_affirmation :=
                                       RegisterIdentityRequest.faith_affirmation payload,
                                     Identity_doc.updated_at := Some now\<rparr>)
                             (identity st)\<rparr>))
                    | None \<Rightarrow>
                        let ident = \<lparr>Identity.phone = phone',
                                      Identity.name = RegisterIdentityRequest.name payload,
                                      Identity.email = RegisterIdentityRequest.email payload,
                                      Identity.country = RegisterIdentityRequest.country payload,
                                      Identity.faith_affirmation =
                                        RegisterIdentityRequest.faith_affirmation payload\<rparr>;
                            (_, st') = create_document_identity st now ident
                        in (Inr (Obj [(''status'', Str ''CREATED''), (''phone'', Str phone')]),
                            Some st'))))"

subsection \<open>Predicates used in the proofs\<close>

text \<open>A string with no whitespace at either end, and one that \<open>strip\<close> and the removal of
  spaces both leave as it is.\<close>

definition clean_ends :: "string \<Rightarrow> bool" where
  "clean_ends s = (s = [] \<or> (\<not> isspace (hd s) \<and> \<not> isspace (last s)))"

definition settled :: "string \<Rightarrow> bool" where
  "settled m = (clean_ends m \<and> remove_all CHR '' '' m = m)"

subsection \<open>Example data\<close>

text \<open>A store with three sessions, two of them for the phone \<open>+2250700000001\<close>; the
  later of the two, \<open>example_session\<close>, is not yet verified. Times are in microseconds.\<close>

definition example_session :: OtpSession_doc where
  "example_session =
     \<lparr>OtpSession.phone = ''+2250700000001'', OtpSession.code = ''482913'',
      OtpSession.expires_at = 300000200, OtpSession.verified = False,
      OtpSession_doc.created_at = 200, OtpSession_doc.updated_at = None\<rparr>"

definition example_store :: store where
  "example_store =
     \<lparr>otpsession =
        [\<lparr>OtpSession.phone = ''+2250700000001'', OtpSession.code = ''111111'',
          OtpSession.expires_at = 300000100, OtpSession.verified = True,
          OtpSession_doc.created_at = 100, OtpSession_doc.updated_at = Some 150\<rparr>,
         \<lparr>OtpSession.phone = ''+2250700000002'', OtpSession.code = ''222222'',
          OtpSession.expires_at = 300000300, OtpSession.verified = False,
          OtpSession_doc.created_at = 300, OtpSession_doc.updated_at = None\<rparr>,
         example_session],
      identity = []\<rparr>"

text \<open>The same store after \<open>example_session\<close> has been verified, and three registration
  requests for its phone: a valid one, a second valid one with other fields, and one that
  fails the affirmation and the compliance check.\<close>

definition example_verified_session :: OtpSession_doc where
  "example_verified_session =
     example_session\<lparr>OtpSession.verified := True, OtpSession_doc.updated_at := Some 251\<rparr>"

definition example_verified_store :: store where
  "example_verified_store =
     example_store\<lparr>otpsession := (otpsession example_store)[2 := example_verified_session]\<rparr>"

definition example_request :: RegisterIdentityRequest where
  "example_request =
     \<lparr>RegisterIdentityRequest.phone = ''00225 07 00 00 00 01'',
      RegisterIdentityRequest.name = ''Awa Kone'',
      RegisterIdentityRequest.email = ''awa@example.com'',
      RegisterIdentityRequest.country = Some ''CI'',
      RegisterIdentityRequest.faith_affirmation = True\<rparr>"

definition example_request2 :: RegisterIdentityRequest where
  "example_request2 =
     \<lparr>RegisterIdentityRequest.phone = ''+225 0700000001'',
      RegisterIdentityRequest.name = ''Awa K'',
      RegisterIdentityRequest.email = ''awa@example.com'',
      RegisterIdentityRequest.country = None,
      RegisterIdentityRequest.faith_affirmation = True\<rparr>"

definition example_bad_request :: RegisterIdentityRequest where
  "example_bad_request =
     \<lparr>RegisterIdentityRequest.phone = ''00225 07 00 00 00 01'',
      RegisterIdentityRequest.name = ''Test User'',
      RegisterIdentityRequest.email = ''awa@example.com'',
      RegisterIdentityRequest.country = Some ''us'',
      RegisterIdentityRequest.faith_affirmation = False\<rparr>"

section \<open>Properties\<close>

subsection \<open>Phone normalisation\<close>

lemma isspace_space: "isspace CHR '' ''"
  by (simp add: isspace_def)

lemma not_isspace_plus: "\<not> isspace CHR ''+''"
  by (simp add: isspace_def)

lemma dropWhile_clean: "s = [] \<or> \<not> P (hd s) \<Longrightarrow> dropWhile P s = s"
  by (cases s) auto

lemma strip_clean_id: "clean_ends s \<Longrightarrow> strip s = s"
  unfolding clean_ends_def strip_def
  by (cases "s = []") (simp_all add: dropWhile_clean hd_rev)

lemma last_dropWhile: "dropWhile P xs \<noteq> [] \<Longrightarrow> last (dropWhile P xs) = last xs"
  by (induction xs) (auto split: if_splits)

lemma clean_ends_strip: "clean_ends (strip s)"
proof -
  define t where "t = dropWhile isspace s"
  define u where "u = dropWhile isspace (rev t)"
  have s: "strip s = rev u" by (simp add: strip_def t_def u_def)
  show ?thesis
  proof (cases "u = []")
    case True then show ?thesis by (simp add: s clean_ends_def)
  next
    case False
    then have hu: "\<not> isspace (hd u)" unfolding u_def by (metis hd_dropWhile)
    from False have tne: "t \<noteq> []" unfolding u_def by auto
    then have ht: "\<not> isspace (hd t)" unfolding t_def by (metis hd_dropWhile)
    from False have "last u = last (rev t)" unfolding u_def by (rule last_dropWhile)
    with tne have "last u = hd t" by (simp add: last_rev)
    with False hu ht show ?thesis by (simp add: s clean_ends_def hd_rev last_rev)
  qed
qed

lemma last_filter_keep: "xs \<noteq> [] \<Longrightarrow> P (last xs) \<Longrightarrow> last (filter P xs) = last xs"
  by (induction xs rule: rev_induct) auto

lemma clean_ends_remove: "clean_ends s \<Longrightarrow> clean_ends (remove_all CHR '' '' s)"
proof (cases "s = []")
  case True then show ?thesis by (simp add: remove_all_def clean_ends_def)
next
  case False
  assume c: "clean_ends s"
  with False have h: "hd s \<noteq> CHR '' ''" and l: "last s \<noteq> CHR '' ''"
    using isspace_space by (auto simp: clean_ends_def)
  from False h have 1: "hd (remove_all CHR '' '' s) = hd s" "remove_all CHR '' '' s \<noteq> []"
    by (cases s; simp add: remove_all_def)+
  from False l have 2: "last (remove_all CHR '' '' s) = last s"
    unfolding remove_all_def by (rule last_filter_keep)
  from c False 1 2 show ?thesis by (simp add: clean_ends_def)
qed

lemma remove_all_idem: "remove_all c (remove_all c s) = remove_all c s"
  by (simp add: remove_all_def)

lemma remove_all_drop: "remove_all c s = s \<Longrightarrow> remove_all c (drop n s) = drop n s"
  unfolding remove_all_def by (metis filter_id_conv in_set_dropD)

lemma settled_cleaned: "settled (remove_all CHR '' '' (strip s))"
  by (simp add: settled_def clean_ends_remove clean_ends_strip remove_all_idem)

lemma normalize_settled:
  "settled m \<Longrightarrow> normalize_phone m =
     (if \<not> startswith m ''+'' then (if startswith m ''00'' then ''+'' @ drop 2 m else m) else m)"
  by (simp add: normalize_phone_def settled_def strip_clean_id Let_def)

lemma settled_plus_drop: "settled m \<Longrightarrow> settled (''+'' @ drop 2 m)"
proof -
  assume s: "settled m"
  then have r: "remove_all CHR '' '' (drop 2 m) = drop 2 m"
    by (simp add: settled_def remove_all_drop)
  have c: "clean_ends (CHR ''+'' # drop 2 m)"
  proof (cases "drop 2 m = []")
    case True then show ?thesis by (simp add: clean_ends_def not_isspace_plus)
  next
    case False
    then have "m \<noteq> []" by auto
    with s False have "\<not> isspace (last (drop 2 m))" by (auto simp: settled_def clean_ends_def)
    with False show ?thesis by (simp add: clean_ends_def not_isspace_plus)
  qed
  from r c show ?thesis by (simp add: settled_def remove_all_def)
qed

lemma normalize_cases:
  "normalize_phone s =
     (if \<not> startswith (remove_all CHR '' '' (strip s)) ''+'' \<and>
         startswith (remove_all CHR '' '' (strip s)) ''00''
      then ''+'' @ drop 2 (remove_all CHR '' '' (strip s))
      else remove_all CHR '' '' (strip s))"
  by (simp add: normalize_phone_def Let_def)

lemma normalize_idem: "normalize_phone (normalize_phone s) = normalize_phone s"
proof -
  define m where "m = remove_all CHR '' '' (strip s)"
  have sm: "settled m" unfolding m_def by (rule settled_cleaned)
  have n: "normalize_phone s =
     (if \<not> startswith m ''+'' \<and> startswith m ''00'' then ''+'' @ drop 2 m else m)"
    unfolding m_def by (rule normalize_cases)
  show ?thesis
  proof (cases "\<not> startswith m ''+'' \<and> startswith m ''00''")
    case True
    then have e: "normalize_phone s = ''+'' @ drop 2 m" using n by simp
    have "settled (''+'' @ drop 2 m)" using sm by (rule settled_plus_drop)
    then have "normalize_phone (''+'' @ drop 2 m) = ''+'' @ drop 2 m"
      by (simp add: normalize_settled startswith_def)
    with e show ?thesis by simp
  next
    case False
    then have e: "normalize_phone s = m" using n by auto
    from False sm have "normalize_phone m = m" by (auto simp: normalize_settled)
    with e show ?thesis by simp
  qed
qed

lemma normalize_no_space: "CHR '' '' \<notin> set (normalize_phone s)"
proof -
  have "CHR '' '' \<notin> set (remove_all CHR '' '' (strip s))"
    by (simp add: remove_all_def)
  moreover have "CHR '' '' \<notin> set (drop 2 (remove_all CHR '' '' (strip s)))"
    using calculation by (metis in_set_dropD)
  ultimately show ?thesis by (simp add: normalize_cases)
qed

text \<open>
  C10. \<open>normalize_phone\<close> is idempotent. Its result holds no space character, wherever the
  spaces of the input were. Writing \<open>m\<close> for the input stripped and freed of spaces: when
  \<open>m\<close> starts with \<open>+\<close> the result is \<open>m\<close> itself, a following \<open>00\<close> included; when \<open>m\<close>
  does not start with \<open>+\<close> and starts with \<open>00\<close>, the result is \<open>+\<close> followed by \<open>m\<close>
  without its first two characters; and the result differs from \<open>m\<close> only in that second
  case.
\<close>

theorem normalize_phone_idempotent:
  "normalize_phone (normalize_phone s) = normalize_phone s \<and>
   CHR '' '' \<notin> set (normalize_phone s) \<and>
   (startswith (remove_all CHR '' '' (strip s)) ''+'' \<longrightarrow>
      normalize_phone s = remove_all CHR '' '' (strip s)) \<and>
   (\<not> startswith (remove_all CHR '' '' (strip s)) ''+'' \<and>
    startswith (remove_all CHR '' '' (strip s)) ''00'' \<longrightarrow>
      normalize_phone s = ''+'' @ drop 2 (remove_all CHR '' '' (strip s))) \<and>
   (normalize_phone s \<noteq> remove_all CHR '' '' (strip s) \<longrightarrow>
      \<not> startswith (remove_all CHR '' '' (strip s)) ''+'' \<and>
      startswith (remove_all CHR '' '' (strip s)) ''00'')"
  using normalize_idem [of s] normalize_no_space [of s] normalize_cases [of s]
  by (simp split: if_splits)

theorem normalize_phone_idempotent_witness:
  "startswith (remove_all CHR '' '' (strip ''  00 225 07 00 '')) ''00'' \<and>
   \<not> startswith (remove_all CHR '' '' (strip ''  00 225 07 00 '')) ''+'' \<and>
   normalize_phone ''  00 225 07 00 '' = ''+2250700'' \<and>
   normalize_phone (normalize_phone ''  00 225 07 00 '') = ''+2250700'' \<and>
   startswith (remove_all CHR '' '' (strip ''+00 225 07'')) ''+'' \<and>
   normalize_phone ''+00 225 07'' = ''+0022507'' \<and>
   normalize_phone (normalize_phone ''+00 225 07'') = ''+0022507''"
proof -
  have m1: "remove_all CHR '' '' (strip ''  00 225 07 00 '') = ''002250700''"
    by (simp add: strip_def remove_all_def isspace_def)
  have m2: "remove_all CHR '' '' (strip ''+00 225 07'') = ''+0022507''"
    by (simp add: strip_def remove_all_def isspace_def)
  note t1 = normalize_phone_idempotent [of "''  00 225 07 00 ''"]
  note t2 = normalize_phone_idempotent [of "''+00 225 07''"]
  from t1 have a1: "normalize_phone (normalize_phone ''  00 225 07 00 '') =
                    normalize_phone ''  00 225 07 00 ''"
    by (rule conjunct1)
  from t1 have a2: "normalize_phone ''  00 225 07 00 '' = ''+2250700''"
    by (simp add: m1 startswith_def)
  from t2 have b1: "normalize_phone (normalize_phone ''+00 225 07'') =
                    normalize_phone ''+00 225 07''"
    by (rule conjunct1)
  from t2 have b2: "normalize_phone ''+00 225 07'' = ''+0022507''"
    by (simp add: m2 startswith_def)
  show ?thesis
    unfolding a1 b1 by (simp add: m1 m2 a2 b2 startswith_def)
qed

subsection \<open>The compliance check\<close>

lemma startswith_iff: "startswith s p \<longleftrightarrow> (\<exists>ss. s = p @ ss)"
  unfolding startswith_def
  by (metis append_eq_conv_conj append_take_drop_id)

lemma contains_iff: "contains s sub \<longleftrightarrow> (\<exists>ps ss. s = ps @ sub @ ss)"
proof (induction s)
  case Nil
  then show ?case by auto
next
  case (Cons x xs)
  show ?case
  proof
    assume "contains (x # xs) sub"
    then consider "startswith (x # xs) sub" | "contains xs sub" by auto
    then show "\<exists>ps ss. x # xs = ps @ sub @ ss"
    proof cases
      case 1
      then obtain ss where "x # xs = sub @ ss" by (auto simp: startswith_iff)
      then have "x # xs = [] @ sub @ ss" by simp
      then show ?thesis by blast
    next
      case 2
      with Cons.IH obtain ps ss where "xs = ps @ sub @ ss" by blast
      then have "x # xs = (x # ps) @ sub @ ss" by simp
      then show ?thesis by blast
    qed
  next
    assume "\<exists>ps ss. x # xs = ps @ sub @ ss"
    then obtain ps ss where e: "x # xs = ps @ sub @ ss" by blast
    show "contains (x # xs) sub"
    proof (cases ps)
      case Nil
      with e have "startswith (x # xs) sub" by (auto simp: startswith_iff)
      then show ?thesis by simp
    next
      case (Cons p ps')
      with e have "xs = ps' @ sub @ ss" by simp
      with Cons.IH have "contains xs sub" by blast
      then show ?thesis by simp
    qed
  qed
qed

lemma kyc_flags_eq:
  "flags (kyc_rule_engine c n e) =
     (if truthy c \<and> upper (the c) \<notin> set [''CI'', ''SN'', ''BJ'', ''TG'', ''CM'', ''GA'', ''CG'', ''CD'']
      then [''COUNTRY_UNSUPPORTED''] else []) @
     (if list_ex (\<lambda>bad. contains (lower n) bad) [''test'', ''fake'', ''demo'']
      then [''SUSPECT_NAME''] else [])"
  by (simp add: kyc_rule_engine_def Let_def)

lemma kyc_pass_eq: "pass (kyc_rule_engine c n e) = (flags (kyc_rule_engine c n e) = [])"
  by (simp add: kyc_rule_engine_def Let_def)

lemma truthy_iff: "truthy c \<and> P (the c) \<longleftrightarrow> (\<exists>v. c = Some v \<and> v \<noteq> [] \<and> P v)"
  by (cases c) (auto simp: truthy_def)

lemma upper_us: "upper ''us'' = ''US''"
  by (simp add: upper_def upper_char_def)

lemma lower_Test_User: "lower ''Test User'' = ''test user''"
  by (simp add: lower_def lower_char_def)

text \<open>
  C3, as amended. \<open>COUNTRY_UNSUPPORTED\<close> is flagged if and only if a country is given, is
  not the empty string, and its upper-case form is outside the allow-set; an absent or empty
  country never triggers it. \<open>SUSPECT_NAME\<close> is flagged if and only if the lower-cased name
  contains \<open>test\<close>, \<open>fake\<close> or \<open>demo\<close> as a contiguous block. The check passes if and only
  if no flag was triggered, and the flags come in detection order: the country flag, when
  present, before the name flag.
\<close>

theorem kyc_rule_engine_flags:
  "(''COUNTRY_UNSUPPORTED'' \<in> set (flags (kyc_rule_engine c n e)) \<longleftrightarrow>
      (\<exists>v. c = Some v \<and> v \<noteq> [] \<and>
           upper v \<notin> {''CI'', ''SN'', ''BJ'', ''TG'', ''CM'', ''GA'', ''CG'', ''CD''})) \<and>
   (''SUSPECT_NAME'' \<in> set (flags (kyc_rule_engine c n e)) \<longleftrightarrow>
      (\<exists>bad \<in> {''test'', ''fake'', ''demo''}. \<exists>ps ss. lower n = ps @ bad @ ss)) \<and>
   (pass (kyc_rule_engine c n e) \<longleftrightarrow> flags (kyc_rule_engine c n e) = []) \<and>
   flags (kyc_rule_engine c n e) =
     (if ''COUNTRY_UNSUPPORTED'' \<in> set (flags (kyc_rule_engine c n e))
      then [''COUNTRY_UNSUPPORTED''] else []) @
     (if ''SUSPECT_NAME'' \<in> set (flags (kyc_rule_engine c n e))
      then [''SUSPECT_NAME''] else [])"
proof -
  let ?A = "truthy c \<and> upper (the c) \<notin> set [''CI'', ''SN'', ''BJ'', ''TG'', ''CM'', ''GA'', ''CG'', ''CD'']"
  let ?B = "list_ex (\<lambda>bad. contains (lower n) bad) [''test'', ''fake'', ''demo'']"
  have f: "flags (kyc_rule_engine c n e) =
     (if ?A then [''COUNTRY_UNSUPPORTED''] else []) @ (if ?B then [''SUSPECT_NAME''] else [])"
    by (rule kyc_flags_eq)
  have a: "?A \<longleftrightarrow> (\<exists>v. c = Some v \<and> v \<noteq> [] \<and>
           upper v \<notin> {''CI'', ''SN'', ''BJ'', ''TG'', ''CM'', ''GA'', ''CG'', ''CD''})"
    using truthy_iff [of c "\<lambda>v. upper v \<notin> set [''CI'', ''SN'', ''BJ'', ''TG'', ''CM'', ''GA'', ''CG'', ''CD'']"]
    by simp
  have b: "?B \<longleftrightarrow> (\<exists>bad \<in> {''test'', ''fake'', ''demo''}. \<exists>ps ss. lower n = ps @ bad @ ss)"
    by (simp add: contains_iff)
  have m1: "''COUNTRY_UNSUPPORTED'' \<in> set (flags (kyc_rule_engine c n e)) \<longleftrightarrow> ?A"
    unfolding f by simp
  have m2: "''SUSPECT_NAME'' \<in> set (flags (kyc_rule_engine c n e)) \<longleftrightarrow> ?B"
    unfolding f by simp
  have o: "flags (kyc_rule_engine c n e) =
     (if ''COUNTRY_UNSUPPORTED'' \<in> set (flags (kyc_rule_engine c n e))
      then [''COUNTRY_UNSUPPORTED''] else []) @
     (if ''SUSPECT_NAME'' \<in> set (flags (kyc_rule_engine c n e))
      then [''SUSPECT_NAME''] else [])"
    unfolding m1 m2 by (rule f)
  from m1 m2 a b o kyc_pass_eq [of c n e] show ?thesis by blast
qed

theorem kyc_rule_engine_flags_witness:
  "upper ''us'' \<notin> {''CI'', ''SN'', ''BJ'', ''TG'', ''CM'', ''GA'', ''CG'', ''CD''} \<and>
   (\<exists>ps ss. lower ''Test User'' = ps @ ''test'' @ ss) \<and>
   flags (kyc_rule_engine (Some ''us'') ''Test User'' ''t@example.com'') =
     [''COUNTRY_UNSUPPORTED'', ''SUSPECT_NAME''] \<and>
   \<not> pass (kyc_rule_engine (Some ''us'') ''Test User'' ''t@example.com'')"
proof -
  let ?k = "kyc_rule_engine (Some ''us'') ''Test User'' ''t@example.com''"
  have u: "upper ''us'' \<notin> {''CI'', ''SN'', ''BJ'', ''TG'', ''CM'', ''GA'', ''CG'', ''CD''}"
    by (simp add: upper_us)
  have "lower ''Test User'' = [] @ ''test'' @ '' user''"
    by (simp add: lower_Test_User)
  then have l: "\<exists>ps ss. lower ''Test User'' = ps @ ''test'' @ ss"
    by blast
  note t = kyc_rule_engine_flags [of "Some ''us''" "''Test User''" "''t@example.com''"]
  from t u have c: "''COUNTRY_UNSUPPORTED'' \<in> set (flags ?k)"
    by simp
  from t l have n: "''SUSPECT_NAME'' \<in> set (flags ?k)"
    by blast
  from t have "flags ?k =
     (if ''COUNTRY_UNSUPPORTED'' \<in> set (flags ?k) then [''COUNTRY_UNSUPPORTED''] else []) @
     (if ''SUSPECT_NAME'' \<in> set (flags ?k) then [''SUSPECT_NAME''] else [])"
    by blast
  with c n have f: "flags ?k = [''COUNTRY_UNSUPPORTED'', ''SUSPECT_NAME'']"
    by simp
  from t f have "\<not> pass ?k"
    by simp
  with u l f show ?thesis
    by blast
qed

text \<open>
  C3 as stated fails for a country that is given but empty: \<open>if country and ...\<close> treats the
  empty string as it treats \<open>None\<close>, so no flag is raised although the country is provided
  and its upper-case form, the empty string, is not in the allow-set.
\<close>

theorem kyc_country_counterexample:
  "\<not> (''COUNTRY_UNSUPPORTED'' \<in>
         set (flags (kyc_rule_engine (Some []) ''Awa'' ''awa@example.com'')) \<longleftrightarrow>
       Some [] \<noteq> (None :: string option) \<and>
       upper [] \<notin> {''CI'', ''SN'', ''BJ'', ''TG'', ''CM'', ''GA'', ''CG'', ''CD''})"
  by (simp add: kyc_flags_eq truthy_def upper_def lower_def lower_char_def startswith_def)

subsection \<open>Queries on the store\<close>

lemma find_docs_set:
  "(i, d) \<in> set (find_docs flt coll) \<longleftrightarrow> i < length coll \<and> coll ! i = d \<and> flt d"
  by (auto simp: find_docs_def in_set_enumerate_eq)

lemma find_docs_Nil: "find_docs flt coll = [] \<longleftrightarrow> (\<forall>d \<in> set coll. \<not> flt d)"
proof -
  have "find_docs flt coll = [] \<longleftrightarrow> (\<forall>x \<in> set (find_docs flt coll). False)"
    by (cases "find_docs flt coll") auto
  also have "\<dots> \<longleftrightarrow> (\<forall>i d. \<not> (i < length coll \<and> coll ! i = d \<and> flt d))"
    using find_docs_set [of _ _ flt coll] by auto
  also have "\<dots> \<longleftrightarrow> (\<forall>d \<in> set coll. \<not> flt d)"
    by (metis in_set_conv_nth)
  finally show ?thesis .
qed

lemma sort_desc_set: "set (sort_desc key rs) = set rs"
  by (simp add: sort_desc_def)

lemma sort_desc_Nil: "sort_desc key rs = [] \<longleftrightarrow> rs = []"
  by (metis sort_desc_set set_empty)

lemma sort_desc_hd:
  assumes "sort_desc key rs = (i, r) # rest" and "(j, d) \<in> set rs"
  shows "key d \<le> key r"
proof -
  have "sorted (map (\<lambda>(i, d). - key d) (sort_desc key rs))"
    unfolding sort_desc_def by (rule sorted_sort_key)
  with assms(1) have "\<forall>y \<in> set rest. - key r \<le> (\<lambda>(i, d). - key d) y"
    by simp
  moreover from assms have "(j, d) = (i, r) \<or> (j, d) \<in> set rest"
    by (metis sort_desc_set set_ConsD)
  ultimately show ?thesis by auto
qed

lemma get_latest_otp_eq:
  "get_latest_otp st p =
     (case sort_desc OtpSession_doc.created_at
             (find_docs (\<lambda>d. OtpSession.phone d = p) (otpsession st)) of
        [] \<Rightarrow> None | r # _ \<Rightarrow> Some r)"
  by (simp add: get_latest_otp_def Let_def split: list.splits)

lemma get_latest_otp_None:
  "get_latest_otp st p = None \<longleftrightarrow> (\<forall>d \<in> set (otpsession st). OtpSession.phone d \<noteq> p)"
proof -
  have "get_latest_otp st p = None \<longleftrightarrow>
        sort_desc OtpSession_doc.created_at
          (find_docs (\<lambda>d. OtpSession.phone d = p) (otpsession st)) = []"
    unfolding get_latest_otp_eq by (simp split: list.splits)
  then show ?thesis
    by (simp add: sort_desc_Nil find_docs_Nil)
qed

lemma get_latest_otp_Some:
  assumes "get_latest_otp st p = Some (i, r)"
  shows "i < length (otpsession st) \<and> otpsession st ! i = r \<and> OtpSession.phone r = p \<and>
         (\<forall>d \<in> set (otpsession st). OtpSession.phone d = p \<longrightarrow>
            OtpSession_doc.created_at d \<le> OtpSession_doc.created_at r)"
proof -
  let ?xs = "find_docs (\<lambda>d. OtpSession.phone d = p) (otpsession st)"
  from assms obtain rest where s: "sort_desc OtpSession_doc.created_at ?xs = (i, r) # rest"
    by (auto simp: get_latest_otp_eq split: list.splits)
  then have "(i, r) \<in> set ?xs"
    by (metis sort_desc_set list.set_intros(1))
  then have a: "i < length (otpsession st) \<and> otpsession st ! i = r \<and> OtpSession.phone r = p"
    by (simp add: find_docs_set)
  have "OtpSession_doc.created_at d \<le> OtpSession_doc.created_at r"
    if "d \<in> set (otpsession st)" and "OtpSession.phone d = p" for d
  proof -
    from that(1) obtain j where "j < length (otpsession st)" and "otpsession st ! j = d"
      by (auto simp: in_set_conv_nth)
    with that(2) have "(j, d) \<in> set ?xs"
      by (simp add: find_docs_set)
    with s show ?thesis by (rule sort_desc_hd)
  qed
  with a show ?thesis by blast
qed

text \<open>An update that keeps the phone and the creation time of every session commutes with
  the query for the latest session.\<close>

lemma enumerate_update_one:
  "enumerate 0 (update_one i upd coll) =
     map (\<lambda>(j, d). (j, if j = i then upd d else d)) (enumerate 0 coll)"
proof (cases "i < length coll")
  case True
  then have u: "update_one i upd coll = coll[i := upd (coll ! i)]"
    by (simp add: update_one_def)
  show ?thesis
    unfolding u by (rule nth_equalityI) (simp_all add: nth_enumerate_eq nth_list_update)
next
  case False
  then have u: "update_one i upd coll = coll"
    by (simp add: update_one_def)
  from False show ?thesis
    unfolding u by (intro nth_equalityI) (simp_all add: nth_enumerate_eq)
qed

lemma find_docs_update_one:
  assumes "\<And>d. flt (upd d) = flt d"
  shows "find_docs flt (update_one i upd coll) =
     map (\<lambda>(j, d). (j, if j = i then upd d else d)) (find_docs flt coll)"
proof -
  have "(\<lambda>(i, d). flt d) \<circ> (\<lambda>(j, d). (j, if j = i then upd d else d)) = (\<lambda>(i, d). flt d)"
    using assms by (auto simp: fun_eq_iff)
  then show ?thesis
    by (simp add: find_docs_def enumerate_update_one filter_map)
qed

lemma insort_key_map:
  assumes "\<And>x. f (g x) = f x"
  shows "insort_key f (g x) (map g xs) = map g (insort_key f x xs)"
  using assms by (induction xs) auto

lemma sort_key_map:
  assumes "\<And>x. f (g x) = f x"
  shows "sort_key f (map g xs) = map g (sort_key f xs)"
  using assms by (induction xs) (simp_all add: insort_key_map)

lemma sort_desc_map:
  assumes "\<And>d. key (upd d) = key d"
  shows "sort_desc key (map (\<lambda>(j, d). (j, if j = i then upd d else d)) rs) =
         map (\<lambda>(j, d). (j, if j = i then upd d else d)) (sort_desc key rs)"
  unfolding sort_desc_def using assms by (intro sort_key_map) auto

lemma get_latest_otp_update:
  assumes "\<And>d. OtpSession.phone (upd d) = OtpSession.phone d"
    and "\<And>d. OtpSession_doc.created_at (upd d) = OtpSession_doc.created_at d"
  shows "get_latest_otp (st\<lparr>otpsession := update_one i upd (otpsession st)\<rparr>) p =
         map_option (\<lambda>(j, d). (j, if j = i then upd d else d)) (get_latest_otp st p)"
proof -
  have f: "find_docs (\<lambda>d. OtpSession.phone d = p) (update_one i upd (otpsession st)) =
     map (\<lambda>(j, d). (j, if j = i then upd d else d))
       (find_docs (\<lambda>d. OtpSession.phone d = p) (otpsession st))"
    by (rule find_docs_update_one) (simp add: assms(1))
  show ?thesis
    by (simp add: get_latest_otp_eq f sort_desc_map [of OtpSession_doc.created_at upd, OF assms(2)] split: list.splits)
qed

lemma get_latest_otp_identity_upd:
  "get_latest_otp (st\<lparr>identity := ids\<rparr>) p = get_latest_otp st p"
  by (simp add: get_latest_otp_def)

subsection \<open>\<open>verify_otp\<close>\<close>

lemma example_latest:
  "get_latest_otp example_store ''+2250700000001'' = Some (2, example_session)"
  by (simp add: get_latest_otp_def example_store_def example_session_def find_docs_def
      sort_desc_def enumerate_eq_zip upt_rec)

lemma example_norm: "normalize_phone ''00225 07 00 00 00 01'' = ''+2250700000001''"
  by (simp add: normalize_phone_def strip_def remove_all_def isspace_def startswith_def)

lemma example_norm_id: "normalize_phone ''+2250700000009'' = ''+2250700000009''"
  by (simp add: normalize_phone_def strip_def remove_all_def isspace_def startswith_def)

lemma verify_otp_unfold:
  "verify_otp (Some st) now now' payload =
     (case get_latest_otp st (normalize_phone (VerifyOtpRequest.phone payload)) of
        None \<Rightarrow> (Inl (HTTPException 404 (Str ''No OTP session found'')), Some st)
      | Some (oid, rec) \<Rightarrow>
          if now > OtpSession.expires_at rec then
            (Inl (HTTPException 400 (Str ''OTP expired'')), Some st)
          else if VerifyOtpRequest.code payload \<noteq> OtpSession.code rec then
            (Inl (HTTPException 400 (Str ''Invalid code'')), Some st)
          else
            (Inr (Obj [(''status'', Str ''VERIFIED''),
                       (''phone'', Str (normalize_phone (VerifyOtpRequest.phone payload)))]),
             Some (st\<lparr>otpsession :=
               update_one oid
                 (\<lambda>d. d\<lparr>OtpSession.verified := True, OtpSession_doc.updated_at := Some now'\<rparr>)
                 (otpsession st)\<rparr>)))"
  by (simp add: verify_otp_def Let_def)

lemma verify_otp_not_found:
  "\<forall>d \<in> set (otpsession st).
      OtpSession.phone d \<noteq> normalize_phone (VerifyOtpRequest.phone payload) \<Longrightarrow>
   verify_otp (Some st) now now' payload =
     (Inl (HTTPException 404 (Str ''No OTP session found'')), Some st)"
  by (simp add: verify_otp_unfold get_latest_otp_None [symmetric])

lemma verify_otp_expired:
  "get_latest_otp st (normalize_phone (VerifyOtpRequest.phone payload)) = Some (i, r) \<Longrightarrow>
   now > OtpSession.expires_at r \<Longrightarrow>
   verify_otp (Some st) now now' payload =
     (Inl (HTTPException 400 (Str ''OTP expired'')), Some st)"
  by (simp add: verify_otp_unfold)

lemma verify_otp_invalid:
  "get_latest_otp st (normalize_phone (VerifyOtpRequest.phone payload)) = Some (i, r) \<Longrightarrow>
   \<not> now > OtpSession.expires_at r \<Longrightarrow>
   VerifyOtpRequest.code payload \<noteq> OtpSession.code r \<Longrightarrow>
   verify_otp (Some st) now now' payload =
     (Inl (HTTPException 400 (Str ''Invalid code'')), Some st)"
  by (simp add: verify_otp_unfold)

text \<open>
  C2. \<open>verify_otp\<close> looks only at the latest session of the normalised phone, the one
  \<open>get_latest_otp\<close> returns: a session of that phone whose \<open>created_at\<close> no other session
  of the phone exceeds. Its checks come in this order. When the phone has no session at all
  it fails with 404 \<open>No OTP session found\<close>. When the clock reading is strictly greater than
  the latest session's \<open>expires_at\<close> it fails with 400 \<open>OTP expired\<close>, whatever code was
  supplied. When the session has not expired and the supplied code is not equal to the
  stored one it fails with 400 \<open>Invalid code\<close>. In each case the store is left as it was.
\<close>

theorem verify_otp_failures:
  "((\<forall>d \<in> set (otpsession st).
        OtpSession.phone d \<noteq> normalize_phone (VerifyOtpRequest.phone payload)) \<longrightarrow>
      verify_otp (Some st) now now' payload =
        (Inl (HTTPException 404 (Str ''No OTP session found'')), Some st)) \<and>
   (\<forall>i r. get_latest_otp st (normalize_phone (VerifyOtpRequest.phone payload)) = Some (i, r) \<longrightarrow>
      (i < length (otpsession st) \<and> otpsession st ! i = r \<and>
       OtpSession.phone r = normalize_phone (VerifyOtpRequest.phone payload) \<and>
       (\<forall>d \<in> set (otpsession st).
          OtpSession.phone d = normalize_phone (VerifyOtpRequest.phone payload) \<longrightarrow>
          OtpSession_doc.created_at d \<le> OtpSession_doc.created_at r)) \<and>
      (now > OtpSession.expires_at r \<longrightarrow>
         verify_otp (Some st) now now' payload =
           (Inl (HTTPException 400 (Str ''OTP expired'')), Some st)) \<and>
      (\<not> now > OtpSession.expires_at r \<and>
       VerifyOtpRequest.code payload \<noteq> OtpSession.code r \<longrightarrow>
         verify_otp (Some st) now now' payload =
           (Inl (HTTPException 400 (Str ''Invalid code'')), Some st)))"
proof -
  have a: "(\<forall>d \<in> set (otpsession st).
        OtpSession.phone d \<noteq> normalize_phone (VerifyOtpRequest.phone payload)) \<longrightarrow>
      verify_otp (Some st) now now' payload =
        (Inl (HTTPException 404 (Str ''No OTP session found'')), Some st)"
    using verify_otp_not_found [of st payload now now'] by blast
  have b: "(i < length (otpsession st) \<and> otpsession st ! i = r \<and>
       OtpSession.phone r = normalize_phone (VerifyOtpRequest.phone payload) \<and>
       (\<forall>d \<in> set (otpsession st).
          OtpSession.phone d = normalize_phone (VerifyOtpRequest.phone payload) \<longrightarrow>
          OtpSession_doc.created_at d \<le> OtpSession_doc.created_at r)) \<and>
      (now > OtpSession.expires_at r \<longrightarrow>
         verify_otp (Some st) now now' payload =
           (Inl (HTTPException 400 (Str ''OTP expired'')), Some st)) \<and>
      (\<not> now > OtpSession.expires_at r \<and>
       VerifyOtpRequest.code payload \<noteq> OtpSession.code r \<longrightarrow>
         verify_otp (Some st) now now' payload =
           (Inl (HTTPException 400 (Str ''Invalid code'')), Some st))"
    if l: "get_latest_otp st (normalize_phone (VerifyOtpRequest.phone payload)) = Some (i, r)"
    for i r
    using get_latest_otp_Some [OF l] verify_otp_expired [OF l, of now now']
      verify_otp_invalid [OF l, of now now']
    by blast
  from a b show ?thesis
    by blast
qed


theorem verify_otp_failures_witness:
  "normalize_phone ''+2250700000009'' \<notin> OtpSession.phone ` set (otpsession example_store) \<and>
   verify_otp (Some example_store) 250 251
     \<lparr>VerifyOtpRequest.phone = ''+2250700000009'', VerifyOtpRequest.code = ''482913''\<rparr> =
     (Inl (HTTPException 404 (Str ''No OTP session found'')), Some example_store) \<and>
   get_latest_otp example_store (normalize_phone ''00225 07 00 00 00 01'') =
     Some (2, example_session) \<and>
   300000201 > OtpSession.expires_at example_session \<and>
   verify_otp (Some example_store) 300000201 300000202
     \<lparr>VerifyOtpRequest.phone = ''00225 07 00 00 00 01'', VerifyOtpRequest.code = ''482913''\<rparr> =
     (Inl (HTTPException 400 (Str ''OTP expired'')), Some example_store) \<and>
   \<not> 250 > OtpSession.expires_at example_session \<and>
   ''111111'' \<noteq> OtpSession.code example_session \<and>
   verify_otp (Some example_store) 250 251
     \<lparr>VerifyOtpRequest.phone = ''00225 07 00 00 00 01'', VerifyOtpRequest.code = ''111111''\<rparr> =
     (Inl (HTTPException 400 (Str ''Invalid code'')), Some example_store)"
proof -
  let ?unknown = "\<lparr>VerifyOtpRequest.phone = ''+2250700000009'', VerifyOtpRequest.code = ''482913''\<rparr>"
  let ?late = "\<lparr>VerifyOtpRequest.phone = ''00225 07 00 00 00 01'', VerifyOtpRequest.code = ''482913''\<rparr>"
  let ?wrong = "\<lparr>VerifyOtpRequest.phone = ''00225 07 00 00 00 01'', VerifyOtpRequest.code = ''111111''\<rparr>"
  have n: "\<forall>d \<in> set (otpsession example_store).
      OtpSession.phone d \<noteq> normalize_phone ''+2250700000009''"
    by (simp add: example_norm_id example_store_def example_session_def)
  have l: "get_latest_otp example_store (normalize_phone ''00225 07 00 00 00 01'') =
     Some (2, example_session)"
    by (simp add: example_norm example_latest)
  have e: "300000201 > OtpSession.expires_at example_session"
    and t: "\<not> 250 > OtpSession.expires_at example_session"
    and c: "''111111'' \<noteq> OtpSession.code example_session"
    by (simp_all add: example_session_def)
  from verify_otp_failures [of example_store ?unknown 250 251] n
  have r1: "verify_otp (Some example_store) 250 251 ?unknown =
     (Inl (HTTPException 404 (Str ''No OTP session found'')), Some example_store)"
    by simp
  from verify_otp_failures [of example_store ?late 300000201 300000202] l e
  have r2: "verify_otp (Some example_store) 300000201 300000202 ?late =
     (Inl (HTTPException 400 (Str ''OTP expired'')), Some example_store)"
    by simp
  from verify_otp_failures [of example_store ?wrong 250 251] l t c
  have r3: "verify_otp (Some example_store) 250 251 ?wrong =
     (Inl (HTTPException 400 (Str ''Invalid code'')), Some example_store)"
    by simp
  from n have n': "normalize_phone ''+2250700000009'' \<notin>
      OtpSession.phone ` set (otpsession example_store)"
    by auto
  from n' l e t c r1 r2 r3 show ?thesis
    by blast
qed

lemma verify_otp_ok:
  assumes l: "get_latest_otp st (normalize_phone (VerifyOtpRequest.phone payload)) = Some (i, r)"
    and t: "\<not> now > OtpSession.expires_at r"
    and c: "VerifyOtpRequest.code payload = OtpSession.code r"
  shows "verify_otp (Some st) now now' payload =
     (Inr (Obj [(''status'', Str ''VERIFIED''),
                (''phone'', Str (normalize_phone (VerifyOtpRequest.phone payload)))]),
      Some (st\<lparr>otpsession := (otpsession st)
              [i := r\<lparr>OtpSession.verified := True, OtpSession_doc.updated_at := Some now'\<rparr>]\<rparr>))"
proof -
  from get_latest_otp_Some [OF l] have "i < length (otpsession st)" and "otpsession st ! i = r"
    by blast+
  then have "update_one i
       (\<lambda>d. d\<lparr>OtpSession.verified := True, OtpSession_doc.updated_at := Some now'\<rparr>)
       (otpsession st) =
     (otpsession st)[i := r\<lparr>OtpSession.verified := True, OtpSession_doc.updated_at := Some now'\<rparr>]"
    by (simp add: update_one_def)
  with l t c show ?thesis
    by (simp add: verify_otp_unfold)
qed

lemma get_latest_otp_verified:
  assumes l: "get_latest_otp st p = Some (i, r)"
  shows "get_latest_otp (st\<lparr>otpsession := (otpsession st)
            [i := r\<lparr>OtpSession.verified := True, OtpSession_doc.updated_at := u\<rparr>]\<rparr>) p =
         Some (i, r\<lparr>OtpSession.verified := True, OtpSession_doc.updated_at := u\<rparr>)"
proof -
  let ?upd = "\<lambda>d. d\<lparr>OtpSession.verified := True, OtpSession_doc.updated_at := u\<rparr>"
  from get_latest_otp_Some [OF l] have "i < length (otpsession st)" and "otpsession st ! i = r"
    by blast+
  then have e: "(otpsession st)[i := ?upd r] = update_one i ?upd (otpsession st)"
    by (simp add: update_one_def)
  have "get_latest_otp (st\<lparr>otpsession := update_one i ?upd (otpsession st)\<rparr>) p =
        map_option (\<lambda>(j, d). (j, if j = i then ?upd d else d)) (get_latest_otp st p)"
    by (rule get_latest_otp_update) simp_all
  with l e show ?thesis
    by simp
qed

text \<open>
  C6. Verifying with the stored code while the latest session has not expired succeeds:
  the response is \<open>VERIFIED\<close>, and the one change to the store is that the latest session
  now has \<open>verified = True\<close> (whatever it was before, so in particular \<open>False\<close> becomes
  \<open>True\<close>) and \<open>updated_at\<close> set to the clock reading of the update. That session is still
  the latest of its phone, and verifying again with the same code before expiry succeeds
  again and leaves the store exactly as a single verification at that later time would:
  \<open>verified\<close> stays \<open>True\<close> and \<open>updated_at\<close> is the new clock reading.
\<close>

theorem verify_otp_success_idempotent:
  "get_latest_otp st (normalize_phone (VerifyOtpRequest.phone payload)) = Some (i, r) \<and>
   \<not> now > OtpSession.expires_at r \<and> VerifyOtpRequest.code payload = OtpSession.code r \<longrightarrow>
   verify_otp (Some st) now now' payload =
     (Inr (Obj [(''status'', Str ''VERIFIED''),
                (''phone'', Str (normalize_phone (VerifyOtpRequest.phone payload)))]),
      Some (st\<lparr>otpsession := (otpsession st)
              [i := r\<lparr>OtpSession.verified := True, OtpSession_doc.updated_at := Some now'\<rparr>]\<rparr>)) \<and>
   get_latest_otp
     (st\<lparr>otpsession := (otpsession st)
         [i := r\<lparr>OtpSession.verified := True, OtpSession_doc.updated_at := Some now'\<rparr>]\<rparr>)
     (normalize_phone (VerifyOtpRequest.phone payload)) =
     Some (i, r\<lparr>OtpSession.verified := True, OtpSession_doc.updated_at := Some now'\<rparr>) \<and>
   (\<forall>now2 now2'. \<not> now2 > OtpSession.expires_at r \<longrightarrow>
      verify_otp
        (Some (st\<lparr>otpsession := (otpsession st)
           [i := r\<lparr>OtpSession.verified := True, OtpSession_doc.updated_at := Some now'\<rparr>]\<rparr>))
        now2 now2' payload =
      (Inr (Obj [(''status'', Str ''VERIFIED''),
                 (''phone'', Str (normalize_phone (VerifyOtpRequest.phone payload)))]),
       Some (st\<lparr>otpsession := (otpsession st)
              [i := r\<lparr>OtpSession.verified := True, OtpSession_doc.updated_at := Some now2'\<rparr>]\<rparr>)))"
proof (intro impI)
  let ?p = "normalize_phone (VerifyOtpRequest.phone payload)"
  let ?r' = "r\<lparr>OtpSession.verified := True, OtpSession_doc.updated_at := Some now'\<rparr>"
  let ?st' = "st\<lparr>otpsession := (otpsession st)[i := ?r']\<rparr>"
  assume h: "get_latest_otp st ?p = Some (i, r) \<and>
   \<not> now > OtpSession.expires_at r \<and> VerifyOtpRequest.code payload = OtpSession.code r"
  then have l: "get_latest_otp st ?p = Some (i, r)"
    and t: "\<not> now > OtpSession.expires_at r"
    and c: "VerifyOtpRequest.code payload = OtpSession.code r"
    by blast+
  have first: "verify_otp (Some st) now now' payload =
     (Inr (Obj [(''status'', Str ''VERIFIED''), (''phone'', Str ?p)]), Some ?st')"
    using l t c by (rule verify_otp_ok)
  have l': "get_latest_otp ?st' ?p = Some (i, ?r')"
    using l by (rule get_latest_otp_verified)
  have again: "verify_otp (Some ?st') now2 now2' payload =
      (Inr (Obj [(''status'', Str ''VERIFIED''), (''phone'', Str ?p)]),
       Some (st\<lparr>otpsession := (otpsession st)
              [i := r\<lparr>OtpSession.verified := True, OtpSession_doc.updated_at := Some now2'\<rparr>]\<rparr>))"
    if t2: "\<not> now2 > OtpSession.expires_at r" for now2 now2'
  proof -
    from t2 have t2': "\<not> now2 > OtpSession.expires_at ?r'" by simp
    from c have c': "VerifyOtpRequest.code payload = OtpSession.code ?r'" by simp
    from verify_otp_ok [OF l' t2' c', of now2']
    show ?thesis by simp
  qed
  from first l' again
  show "verify_otp (Some st) now now' payload =
     (Inr (Obj [(''status'', Str ''VERIFIED''), (''phone'', Str ?p)]), Some ?st') \<and>
   get_latest_otp ?st' ?p = Some (i, ?r') \<and>
   (\<forall>now2 now2'. \<not> now2 > OtpSession.expires_at r \<longrightarrow>
      verify_otp (Some ?st') now2 now2' payload =
      (Inr (Obj [(''status'', Str ''VERIFIED''), (''phone'', Str ?p)]),
       Some (st\<lparr>otpsession := (otpsession st)
              [i := r\<lparr>OtpSession.verified := True, OtpSession_doc.updated_at := Some now2'\<rparr>]\<rparr>)))"
    by blast
qed

theorem verify_otp_success_idempotent_witness:
  "get_latest_otp example_store (normalize_phone ''00225 07 00 00 00 01'') =
     Some (2, example_session) \<and>
   \<not> 250 > OtpSession.expires_at example_session \<and>
   ''482913'' = OtpSession.code example_session \<and>
   \<not> OtpSession.verified example_session \<and>
   verify_otp (Some example_store) 250 251
     \<lparr>VerifyOtpRequest.phone = ''00225 07 00 00 00 01'', VerifyOtpRequest.code = ''482913''\<rparr> =
     (Inr (Obj [(''status'', Str ''VERIFIED''), (''phone'', Str ''+2250700000001'')]),
      Some (example_store\<lparr>otpsession := (otpsession example_store)
        [2 := example_session\<lparr>OtpSession.verified := True,
                               OtpSession_doc.updated_at := Some 251\<rparr>]\<rparr>)) \<and>
   \<not> 260 > OtpSession.expires_at example_session \<and>
   verify_otp
     (Some (example_store\<lparr>otpsession := (otpsession example_store)
        [2 := example_session\<lparr>OtpSession.verified := True,
                               OtpSession_doc.updated_at := Some 251\<rparr>]\<rparr>))
     260 261
     \<lparr>VerifyOtpRequest.phone = ''00225 07 00 00 00 01'', VerifyOtpRequest.code = ''482913''\<rparr> =
     (Inr (Obj [(''status'', Str ''VERIFIED''), (''phone'', Str ''+2250700000001'')]),
      Some (example_store\<lparr>otpsession := (otpsession example_store)
        [2 := example_session\<lparr>OtpSession.verified := True,
                               OtpSession_doc.updated_at := Some 261\<rparr>]\<rparr>))"
proof -
  let ?ok = "\<lparr>VerifyOtpRequest.phone = ''00225 07 00 00 00 01'', VerifyOtpRequest.code = ''482913''\<rparr>"
  have l: "get_latest_otp example_store (normalize_phone (VerifyOtpRequest.phone ?ok)) =
     Some (2, example_session)"
    by (simp add: example_norm example_latest)
  have t: "\<not> 250 > OtpSession.expires_at example_session"
    and t2: "\<not> 260 > OtpSession.expires_at example_session"
    and c: "VerifyOtpRequest.code ?ok = OtpSession.code example_session"
    and v: "\<not> OtpSession.verified example_session"
    by (simp_all add: example_session_def)
  note w = verify_otp_success_idempotent [of example_store ?ok 2 example_session 250 251]
  from w l t c t2 v show ?thesis
    by (simp add: example_norm)
qed


lemma verify_otp_error_unchanged:
  "fst (verify_otp db now now' payload) = Inl e \<Longrightarrow> snd (verify_otp db now now' payload) = db"
  by (cases db) (auto simp: verify_otp_def Let_def split: option.splits prod.splits if_splits)

text \<open>
  C8. Whenever \<open>verify_otp\<close> fails with 400 \<open>Invalid code\<close> the store after the call is the
  store before it. In particular, when the latest session of the phone has not expired and
  the supplied code differs from the stored one, the call fails that way, the store is
  unchanged, and the session's \<open>verified\<close> field is what it was.
\<close>

theorem verify_otp_invalid_code_unchanged:
  "(fst (verify_otp db now now' payload) = Inl (HTTPException 400 (Str ''Invalid code'')) \<longrightarrow>
      snd (verify_otp db now now' payload) = db) \<and>
   (get_latest_otp st (normalize_phone (VerifyOtpRequest.phone payload)) = Some (i, r) \<and>
    \<not> now > OtpSession.expires_at r \<and> VerifyOtpRequest.code payload \<noteq> OtpSession.code r \<longrightarrow>
      verify_otp (Some st) now now' payload =
        (Inl (HTTPException 400 (Str ''Invalid code'')), Some st) \<and>
      get_latest_otp st (normalize_phone (VerifyOtpRequest.phone payload)) = Some (i, r) \<and>
      OtpSession.verified (otpsession st ! i) = OtpSession.verified r)"
proof -
  have a: "fst (verify_otp db now now' payload) = Inl (HTTPException 400 (Str ''Invalid code'')) \<longrightarrow>
      snd (verify_otp db now now' payload) = db"
    by (simp add: verify_otp_error_unchanged)
  have b: "verify_otp (Some st) now now' payload =
        (Inl (HTTPException 400 (Str ''Invalid code'')), Some st) \<and>
      get_latest_otp st (normalize_phone (VerifyOtpRequest.phone payload)) = Some (i, r) \<and>
      OtpSession.verified (otpsession st ! i) = OtpSession.verified r"
    if h: "get_latest_otp st (normalize_phone (VerifyOtpRequest.phone payload)) = Some (i, r) \<and>
    \<not> now > OtpSession.expires_at r \<and> VerifyOtpRequest.code payload \<noteq> OtpSession.code r"
    using h get_latest_otp_Some [of st _ i r] verify_otp_invalid [of st payload i r now now']
    by blast
  from a b show ?thesis by blast
qed


theorem verify_otp_invalid_code_unchanged_witness:
  "get_latest_otp example_store (normalize_phone ''00225 07 00 00 00 01'') =
     Some (2, example_session) \<and>
   \<not> 250 > OtpSession.expires_at example_session \<and>
   ''111111'' \<noteq> OtpSession.code example_session \<and>
   fst (verify_otp (Some example_store) 250 251
     \<lparr>VerifyOtpRequest.phone = ''00225 07 00 00 00 01'', VerifyOtpRequest.code = ''111111''\<rparr>) =
     Inl (HTTPException 400 (Str ''Invalid code'')) \<and>
   snd (verify_otp (Some example_store) 250 251
     \<lparr>VerifyOtpRequest.phone = ''00225 07 00 00 00 01'', VerifyOtpRequest.code = ''111111''\<rparr>) =
     Some example_store \<and>
   \<not> OtpSession.verified (otpsession example_store ! 2)"
proof -
  let ?wrong = "\<lparr>VerifyOtpRequest.phone = ''00225 07 00 00 00 01'', VerifyOtpRequest.code = ''111111''\<rparr>"
  have l: "get_latest_otp example_store (normalize_phone (VerifyOtpRequest.phone ?wrong)) =
     Some (2, example_session)"
    by (simp add: example_norm example_latest)
  have t: "\<not> 250 > OtpSession.expires_at example_session"
    and c: "VerifyOtpRequest.code ?wrong \<noteq> OtpSession.code example_session"
    and v: "\<not> OtpSession.verified example_session"
    by (simp_all add: example_session_def)
  note w = verify_otp_invalid_code_unchanged
    [of "Some example_store" 250 251 ?wrong example_store 2 example_session]
  from w l t c
  have r: "verify_otp (Some example_store) 250 251 ?wrong =
        (Inl (HTTPException 400 (Str ''Invalid code'')), Some example_store)"
    and u: "OtpSession.verified (otpsession example_store ! 2) = OtpSession.verified example_session"
    by blast+
  from r have f: "fst (verify_otp (Some example_store) 250 251 ?wrong) =
     Inl (HTTPException 400 (Str ''Invalid code''))"
    by simp
  with w have s: "snd (verify_otp (Some example_store) 250 251 ?wrong) = Some example_store"
    by blast
  from l t c f s u v show ?thesis
    by simp
qed

subsection \<open>\<open>start_otp\<close>\<close>














lemma randint_onto: "a \<le> v \<Longrightarrow> v \<le> b \<Longrightarrow> randint a b (nat (v - a)) = v"
  by (simp add: randint_def)










subsection \<open>\<open>register_identity\<close>\<close>

lemma register_identity_unfold:
  "register_identity (Some st) now payload =
     (case get_latest_otp st (normalize_phone (RegisterIdentityRequest.phone payload)) of
        None \<Rightarrow> (Inl (HTTPException 400 (Str ''Phone not verified via OTP'')), Some st)
      | Some (oid, rec) \<Rightarrow>
          if \<not> OtpSession.verified rec then
            (Inl (HTTPException 400 (Str ''Phone not verified via OTP'')), Some st)
          else if \<not> RegisterIdentityRequest.faith_affirmation payload then
            (Inl (HTTPException 400 (Str ''Faith affirmation is required'')), Some st)
          else if \<not> pass (kyc_rule_engine (RegisterIdentityRequest.country payload)
                             (RegisterIdentityRequest.name payload)
                             (RegisterIdentityRequest.email payload)) then
            (Inl (HTTPException 400
                   (Obj [(''message'', Str ''KYC checks failed''),
                         (''flags'', Arr (map Str (flags (kyc_rule_engine
                             (RegisterIdentityRequest.country payload)
                             (RegisterIdentityRequest.name payload)
                             (RegisterIdentityRequest.email payload)))))])), Some st)
          else
            (case find_one (\<lambda>d. Identity.phone d =
                      normalize_phone (RegisterIdentityRequest.phone payload)) (identity st) of
               Some (eid, existing) \<Rightarrow>
                 (Inr (Obj [(''status'', Str ''UPDATED''),
                            (''phone'', Str (normalize_phone (RegisterIdentityRequest.phone payload)))]),
                  Some (st\<lparr>identity :=
                    update_one eid
                      (\<lambda>d. d\<lparr>Identity.name := RegisterIdentityRequest.name payload,
                              Identity.email := RegisterIdentityRequest.email payload,
                              Identity.country := RegisterIdentityRequest.country payload,
                              Identity.faith_affirmation :=
                                RegisterIdentityRequest.faith_affirmation payload,
                              Identity_doc.updated_at := Some now\<rparr>)
                      (identity st)\<rparr>))
             | None \<Rightarrow>
                 (Inr (Obj [(''status'', Str ''CREATED''),
                            (''phone'', Str (normalize_phone (RegisterIdentityRequest.phone payload)))]),
                  Some (st\<lparr>identity := identity st @
                    [\<lparr>Identity.phone = normalize_phone (RegisterIdentityRequest.phone payload),
                      Identity.name = RegisterIdentityRequest.name payload,
                      Identity.email = RegisterIdentityRequest.email payload,
                      Identity.country = RegisterIdentityRequest.country payload,
                      Identity.faith_affirmation =
                        RegisterIdentityRequest.faith_affirmation payload,
                      Identity_doc.created_at = now,
                      Identity_doc.updated_at = None\<rparr>]\<rparr>))))"
  by (simp add: register_identity_def create_document_identity_def Let_def
      split: option.splits prod.splits)

lemma register_not_verified:
  "get_latest_otp st (normalize_phone (RegisterIdentityRequest.phone payload)) = None \<or>
   (\<exists>i r. get_latest_otp st (normalize_phone (RegisterIdentityRequest.phone payload)) = Some (i, r)
      \<and> \<not> OtpSession.verified r) \<Longrightarrow>
   register_identity (Some st) now payload =
     (Inl (HTTPException 400 (Str ''Phone not verified via OTP'')), Some st)"
  by (auto simp: register_identity_unfold)

lemma register_no_affirmation:
  "get_latest_otp st (normalize_phone (RegisterIdentityRequest.phone payload)) = Some (i, r) \<Longrightarrow>
   OtpSession.verified r \<Longrightarrow>
   \<not> RegisterIdentityRequest.faith_affirmation payload \<Longrightarrow>
   register_identity (Some st) now payload =
     (Inl (HTTPException 400 (Str ''Faith affirmation is required'')), Some st)"
  by (simp add: register_identity_unfold)

lemma register_kyc_failed:
  "get_latest_otp st (normalize_phone (RegisterIdentityRequest.phone payload)) = Some (i, r) \<Longrightarrow>
   OtpSession.verified r \<Longrightarrow>
   RegisterIdentityRequest.faith_affirmation payload \<Longrightarrow>
   \<not> pass (kyc_rule_engine (RegisterIdentityRequest.country payload)
            (RegisterIdentityRequest.name payload) (RegisterIdentityRequest.email payload)) \<Longrightarrow>
   register_identity (Some st) now payload =
     (Inl (HTTPException 400
            (Obj [(''message'', Str ''KYC checks failed''),
                  (''flags'', Arr (map Str (flags (kyc_rule_engine
                      (RegisterIdentityRequest.country payload)
                      (RegisterIdentityRequest.name payload)
                      (RegisterIdentityRequest.email payload)))))])), Some st)"
  by (simp add: register_identity_unfold)

lemma register_error_unchanged:
  "fst (register_identity db now payload) = Inl e \<Longrightarrow>
   snd (register_identity db now payload) = db"
proof (cases db)
  case None
  then show ?thesis by (simp add: register_identity_def)
next
  case (Some st)
  assume "fst (register_identity db now payload) = Inl e"
  with Some show ?thesis
    by (auto simp: register_identity_unfold split: option.splits if_splits)
qed

lemma register_passes_gates:
  assumes "get_latest_otp st (normalize_phone (RegisterIdentityRequest.phone payload)) = Some (i, r)"
    and "OtpSession.verified r"
    and "RegisterIdentityRequest.faith_affirmation payload"
    and "pass (kyc_rule_engine (RegisterIdentityRequest.country payload)
            (RegisterIdentityRequest.name payload) (RegisterIdentityRequest.email payload))"
  shows "register_identity (Some st) now payload =
     (case find_one (\<lambda>d. Identity.phone d =
                      normalize_phone (RegisterIdentityRequest.phone payload)) (identity st) of
               Some (eid, existing) \<Rightarrow>
                 (Inr (Obj [(''status'', Str ''UPDATED''),
                            (''phone'', Str (normalize_phone (RegisterIdentityRequest.phone payload)))]),
                  Some (st\<lparr>identity :=
                    update_one eid
                      (\<lambda>d. d\<lparr>Identity.name := RegisterIdentityRequest.name payload,
                              Identity.email := RegisterIdentityRequest.email payload,
                              Identity.country := RegisterIdentityRequest.country payload,
                              Identity.faith_affirmation :=
                                RegisterIdentityRequest.faith_affirmation payload,
                              Identity_doc.updated_at := Some now\<rparr>)
                      (identity st)\<rparr>))
             | None \<Rightarrow>
                 (Inr (Obj [(''status'', Str ''CREATED''),
                            (''phone'', Str (normalize_phone (RegisterIdentityRequest.phone payload)))]),
                  Some (st\<lparr>identity := identity st @
                    [\<lparr>Identity.phone = normalize_phone (RegisterIdentityRequest.phone payload),
                      Identity.name = RegisterIdentityRequest.name payload,
                      Identity.email = RegisterIdentityRequest.email payload,
                      Identity.country = RegisterIdentityRequest.country payload,
                      Identity.faith_affirmation =
                        RegisterIdentityRequest.faith_affirmation payload,
                      Identity_doc.created_at = now,
                      Identity_doc.updated_at = None\<rparr>]\<rparr>)))"
  using assms by (simp add: register_identity_unfold)

lemma find_one_None: "find_one flt coll = None \<longleftrightarrow> (\<forall>d \<in> set coll. \<not> flt d)"
  by (simp add: find_one_def find_docs_Nil [symmetric] split: list.splits)

lemma find_one_Some:
  assumes "find_one flt coll = Some (i, d)"
  shows "i < length coll \<and> coll ! i = d \<and> flt d"
proof -
  from assms obtain rest where "find_docs flt coll = (i, d) # rest"
    by (auto simp: find_one_def split: list.splits)
  then have "(i, d) \<in> set (find_docs flt coll)"
    by simp
  then show ?thesis
    by (simp add: find_docs_set)
qed

lemma find_one_exists:
  "\<exists>d \<in> set coll. flt d \<Longrightarrow> \<exists>i d. find_one flt coll = Some (i, d)"
  using find_one_None [of flt coll] by (cases "find_one flt coll") auto

lemma find_docs_snoc:
  "find_docs flt (coll @ [x]) = find_docs flt coll @ (if flt x then [(length coll, x)] else [])"
  by (simp add: find_docs_def enumerate_append_eq)

lemma find_one_snoc_new:
  "\<forall>d \<in> set coll. \<not> flt d \<Longrightarrow> flt x \<Longrightarrow> find_one flt (coll @ [x]) = Some (length coll, x)"
  using find_docs_Nil [of flt coll] by (simp add: find_one_def find_docs_snoc)

lemma register_created:
  assumes "get_latest_otp st (normalize_phone (RegisterIdentityRequest.phone payload)) = Some (i, r)"
    and "OtpSession.verified r"
    and "RegisterIdentityRequest.faith_affirmation payload"
    and "pass (kyc_rule_engine (RegisterIdentityRequest.country payload)
            (RegisterIdentityRequest.name payload) (RegisterIdentityRequest.email payload))"
    and "\<forall>d \<in> set (identity st).
           Identity.phone d \<noteq> normalize_phone (RegisterIdentityRequest.phone payload)"
  shows "register_identity (Some st) now payload =
     (Inr (Obj [(''status'', Str ''CREATED''),
                (''phone'', Str (normalize_phone (RegisterIdentityRequest.phone payload)))]),
      Some (st\<lparr>identity := identity st @
        [\<lparr>Identity.phone = normalize_phone (RegisterIdentityRequest.phone payload),
          Identity.name = RegisterIdentityRequest.name payload,
          Identity.email = RegisterIdentityRequest.email payload,
          Identity.country = RegisterIdentityRequest.country payload,
          Identity.faith_affirmation = RegisterIdentityRequest.faith_affirmation payload,
          Identity_doc.created_at = now,
          Identity_doc.updated_at = None\<rparr>]\<rparr>))"
proof -
  from assms(5) have "find_one (\<lambda>d. Identity.phone d =
      normalize_phone (RegisterIdentityRequest.phone payload)) (identity st) = None"
    by (simp add: find_one_None)
  with register_passes_gates [OF assms(1-4), of now] show ?thesis
    by simp
qed

lemma register_updated:
  assumes "get_latest_otp st (normalize_phone (RegisterIdentityRequest.phone payload)) = Some (i, r)"
    and "OtpSession.verified r"
    and "RegisterIdentityRequest.faith_affirmation payload"
    and "pass (kyc_rule_engine (RegisterIdentityRequest.country payload)
            (RegisterIdentityRequest.name payload) (RegisterIdentityRequest.email payload))"
    and f: "find_one (\<lambda>d. Identity.phone d =
              normalize_phone (RegisterIdentityRequest.phone payload)) (identity st) =
            Some (eid, existing)"
  shows "register_identity (Some st) now payload =
     (Inr (Obj [(''status'', Str ''UPDATED''),
                (''phone'', Str (normalize_phone (RegisterIdentityRequest.phone payload)))]),
      Some (st\<lparr>identity := (identity st)
        [eid := existing\<lparr>Identity.name := RegisterIdentityRequest.name payload,
                          Identity.email := RegisterIdentityRequest.email payload,
                          Identity.country := RegisterIdentityRequest.country payload,
                          Identity.faith_affirmation :=
                            RegisterIdentityRequest.faith_affirmation payload,
                          Identity_doc.updated_at := Some now\<rparr>]\<rparr>))"
proof -
  from find_one_Some [OF f] have "eid < length (identity st)" and "identity st ! eid = existing"
    by blast+
  then have "update_one eid
      (\<lambda>d. d\<lparr>Identity.name := RegisterIdentityRequest.name payload,
              Identity.email := RegisterIdentityRequest.email payload,
              Identity.country := RegisterIdentityRequest.country payload,
              Identity.faith_affirmation := RegisterIdentityRequest.faith_affirmation payload,
              Identity_doc.updated_at := Some now\<rparr>)
      (identity st) =
    (identity st)
        [eid := existing\<lparr>Identity.name := RegisterIdentityRequest.name payload,
                          Identity.email := RegisterIdentityRequest.email payload,
                          Identity.country := RegisterIdentityRequest.country payload,
                          Identity.faith_affirmation :=
                            RegisterIdentityRequest.faith_affirmation payload,
                          Identity_doc.updated_at := Some now\<rparr>]"
    by (simp add: update_one_def)
  with register_passes_gates [OF assms(1-4), of now] f show ?thesis
    by simp
qed


lemma example_verified_latest:
  "get_latest_otp example_verified_store ''+2250700000001'' = Some (2, example_verified_session)"
  unfolding example_verified_store_def example_verified_session_def
  using example_latest by (rule get_latest_otp_verified)

lemma example_verified: "OtpSession.verified example_verified_session"
  by (simp add: example_verified_session_def)

lemma example_no_identity: "identity example_verified_store = []"
  by (simp add: example_verified_store_def example_store_def)

lemma example_request_phone:
  "normalize_phone (RegisterIdentityRequest.phone example_request) = ''+2250700000001''"
  by (simp add: example_request_def example_norm)

lemma upper_CI: "upper ''CI'' = ''CI''"
  by (simp add: upper_def upper_char_def)

lemma lower_Awa: "lower ''Awa Kone'' = ''awa kone''"
  by (simp add: lower_def lower_char_def)

lemma example_kyc:
  "kyc_rule_engine (Some ''CI'') ''Awa Kone'' ''awa@example.com'' = \<lparr>pass = True, flags = []\<rparr>"
  by (simp add: kyc_rule_engine_def truthy_def upper_CI lower_Awa startswith_def)

lemma example_kyc_bad:
  "kyc_rule_engine (Some ''us'') ''Test User'' ''awa@example.com'' =
     \<lparr>pass = False, flags = [''COUNTRY_UNSUPPORTED'', ''SUSPECT_NAME'']\<rparr>"
  by (simp add: kyc_rule_engine_def truthy_def upper_us lower_Test_User startswith_def)

lemma example_norm2: "normalize_phone ''+225 0700000001'' = ''+2250700000001''"
  by (simp add: normalize_phone_def strip_def remove_all_def isspace_def startswith_def)

lemma lower_Awa_K: "lower ''Awa K'' = ''awa k''"
  by (simp add: lower_def lower_char_def)

lemma example_kyc2:
  "kyc_rule_engine None ''Awa K'' ''awa@example.com'' = \<lparr>pass = True, flags = []\<rparr>"
  by (simp add: kyc_rule_engine_def truthy_def lower_Awa_K startswith_def)

lemma example_unverified: "\<not> OtpSession.verified example_session"
  by (simp add: example_session_def)

text \<open>
  C1. Registration writes to the identity collection only behind the verification gate.
  When the normalised phone has no session at all, or the latest session of the phone (the
  one \<open>get_latest_otp\<close> returns) is not verified, \<open>register_identity\<close> fails with 400
  \<open>Phone not verified via OTP\<close> and the store, the identity collection included, is
  unchanged. Conversely, whenever the identity collection after the call differs from the
  one before, the latest session of the phone exists and has \<open>verified = True\<close>.
\<close>

theorem register_requires_verified:
  "((\<forall>d \<in> set (otpsession st).
        OtpSession.phone d \<noteq> normalize_phone (RegisterIdentityRequest.phone payload)) \<or>
    (\<exists>i r. get_latest_otp st (normalize_phone (RegisterIdentityRequest.phone payload)) = Some (i, r)
       \<and> \<not> OtpSession.verified r) \<longrightarrow>
      register_identity (Some st) now payload =
        (Inl (HTTPException 400 (Str ''Phone not verified via OTP'')), Some st)) \<and>
   (\<forall>st'. snd (register_identity (Some st) now payload) = Some st' \<and> identity st' \<noteq> identity st \<longrightarrow>
      (\<exists>i r. get_latest_otp st (normalize_phone (RegisterIdentityRequest.phone payload)) = Some (i, r)
         \<and> OtpSession.verified r))"
proof -
  let ?p = "normalize_phone (RegisterIdentityRequest.phone payload)"
  let ?bad = "get_latest_otp st ?p = None \<or>
     (\<exists>i r. get_latest_otp st ?p = Some (i, r) \<and> \<not> OtpSession.verified r)"
  have fail: "register_identity (Some st) now payload =
        (Inl (HTTPException 400 (Str ''Phone not verified via OTP'')), Some st)" if ?bad
    using that by (rule register_not_verified)
  have a: "(\<forall>d \<in> set (otpsession st). OtpSession.phone d \<noteq> ?p) \<or>
    (\<exists>i r. get_latest_otp st ?p = Some (i, r) \<and> \<not> OtpSession.verified r) \<longrightarrow>
      register_identity (Some st) now payload =
        (Inl (HTTPException 400 (Str ''Phone not verified via OTP'')), Some st)"
    using fail by (auto simp: get_latest_otp_None)
  have b: "\<exists>i r. get_latest_otp st ?p = Some (i, r) \<and> OtpSession.verified r"
    if h: "snd (register_identity (Some st) now payload) = Some st' \<and> identity st' \<noteq> identity st"
    for st'
  proof (rule ccontr)
    assume "\<not> (\<exists>i r. get_latest_otp st ?p = Some (i, r) \<and> OtpSession.verified r)"
    then have ?bad
      by (cases "get_latest_otp st ?p") auto
    then have "snd (register_identity (Some st) now payload) = Some st"
      by (simp add: fail)
    with h have "st' = st"
      by simp
    with h show False
      by blast
  qed
  from a b show ?thesis
    by blast
qed

theorem register_requires_verified_witness:
  "get_latest_otp example_store
     (normalize_phone (RegisterIdentityRequest.phone example_request)) =
     Some (2, example_session) \<and>
   \<not> OtpSession.verified example_session \<and>
   register_identity (Some example_store) 300 example_request =
     (Inl (HTTPException 400 (Str ''Phone not verified via OTP'')), Some example_store) \<and>
   snd (register_identity (Some example_verified_store) 300 example_request) =
     Some (example_verified_store\<lparr>identity :=
       [\<lparr>Identity.phone = ''+2250700000001'', Identity.name = ''Awa Kone'',
         Identity.email = ''awa@example.com'', Identity.country = Some ''CI'',
         Identity.faith_affirmation = True,
         Identity_doc.created_at = 300, Identity_doc.updated_at = None\<rparr>]\<rparr>) \<and>
   identity (example_verified_store\<lparr>identity :=
       [\<lparr>Identity.phone = ''+2250700000001'', Identity.name = ''Awa Kone'',
         Identity.email = ''awa@example.com'', Identity.country = Some ''CI'',
         Identity.faith_affirmation = True,
         Identity_doc.created_at = 300, Identity_doc.updated_at = None\<rparr>]\<rparr>) \<noteq>
     identity example_verified_store \<and>
   (\<exists>i r. get_latest_otp example_verified_store
        (normalize_phone (RegisterIdentityRequest.phone example_request)) = Some (i, r) \<and>
      OtpSession.verified r)"
proof -
  let ?st' = "example_verified_store\<lparr>identity :=
       [\<lparr>Identity.phone = ''+2250700000001'', Identity.name = ''Awa Kone'',
         Identity.email = ''awa@example.com'', Identity.country = Some ''CI'',
         Identity.faith_affirmation = True,
         Identity_doc.created_at = 300, Identity_doc.updated_at = None\<rparr>]\<rparr>"
  have l: "get_latest_otp example_store
     (normalize_phone (RegisterIdentityRequest.phone example_request)) =
     Some (2, example_session)"
    by (simp add: example_request_phone example_latest)
  from register_requires_verified [of example_store example_request 300] l example_unverified
  have r: "register_identity (Some example_store) 300 example_request =
     (Inl (HTTPException 400 (Str ''Phone not verified via OTP'')), Some example_store)"
    by blast
  have lv: "get_latest_otp example_verified_store
     (normalize_phone (RegisterIdentityRequest.phone example_request)) =
     Some (2, example_verified_session)"
    by (simp add: example_request_phone example_verified_latest)
  have f: "RegisterIdentityRequest.faith_affirmation example_request"
    and k: "pass (kyc_rule_engine (RegisterIdentityRequest.country example_request)
          (RegisterIdentityRequest.name example_request)
          (RegisterIdentityRequest.email example_request))"
    by (simp_all add: example_request_def example_kyc)
  have none: "\<forall>d \<in> set (identity example_verified_store).
      Identity.phone d \<noteq> normalize_phone (RegisterIdentityRequest.phone example_request)"
    by (simp add: example_no_identity)
  from register_created [OF lv example_verified f k none, of 300]
  have s: "snd (register_identity (Some example_verified_store) 300 example_request) = Some ?st'"
    by (simp add: example_no_identity example_norm example_request_def)
  have d: "identity ?st' \<noteq> identity example_verified_store"
    by (simp add: example_no_identity)
  from register_requires_verified [of example_verified_store example_request 300] s d
  have e: "\<exists>i r. get_latest_otp example_verified_store
        (normalize_phone (RegisterIdentityRequest.phone example_request)) = Some (i, r) \<and>
      OtpSession.verified r"
    by blast
  from l example_unverified r s d e show ?thesis
    by blast
qed

text \<open>
  C5. \<open>register_identity\<close> checks its preconditions in order, and the first failure wins.
  Without a verified latest session it fails with 400 \<open>Phone not verified via OTP\<close>,
  whatever the affirmation and the compliance check say. With a verified latest session
  and \<open>faith_affirmation = False\<close> it fails with 400 \<open>Faith affirmation is required\<close>,
  whatever the compliance check says. With both of these passed and a failing compliance
  check it fails with 400 and a detail that carries the triggered flags, in order. On every
  failure the store after the call is the store before it, so no identity is written.
\<close>

theorem register_precondition_order:
  "((\<forall>d \<in> set (otpsession st).
        OtpSession.phone d \<noteq> normalize_phone (RegisterIdentityRequest.phone payload)) \<or>
    (\<exists>i r. get_latest_otp st (normalize_phone (RegisterIdentityRequest.phone payload)) = Some (i, r)
       \<and> \<not> OtpSession.verified r) \<longrightarrow>
      register_identity (Some st) now payload =
        (Inl (HTTPException 400 (Str ''Phone not verified via OTP'')), Some st)) \<and>
   ((\<exists>i r. get_latest_otp st (normalize_phone (RegisterIdentityRequest.phone payload)) = Some (i, r)
       \<and> OtpSession.verified r) \<and>
    \<not> RegisterIdentityRequest.faith_affirmation payload \<longrightarrow>
      register_identity (Some st) now payload =
        (Inl (HTTPException 400 (Str ''Faith affirmation is required'')), Some st)) \<and>
   ((\<exists>i r. get_latest_otp st (normalize_phone (RegisterIdentityRequest.phone payload)) = Some (i, r)
       \<and> OtpSession.verified r) \<and>
    RegisterIdentityRequest.faith_affirmation payload \<and>
    \<not> pass (kyc_rule_engine (RegisterIdentityRequest.country payload)
            (RegisterIdentityRequest.name payload) (RegisterIdentityRequest.email payload)) \<longrightarrow>
      register_identity (Some st) now payload =
        (Inl (HTTPException 400
            (Obj [(''message'', Str ''KYC checks failed''),
                  (''flags'', Arr (map Str (flags (kyc_rule_engine
                      (RegisterIdentityRequest.country payload)
                      (RegisterIdentityRequest.name payload)
                      (RegisterIdentityRequest.email payload)))))])), Some st)) \<and>
   (\<forall>e. fst (register_identity db now payload) = Inl e \<longrightarrow>
      snd (register_identity db now payload) = db)"
proof -
  let ?p = "normalize_phone (RegisterIdentityRequest.phone payload)"
  have a: "(\<forall>d \<in> set (otpsession st). OtpSession.phone d \<noteq> ?p) \<or>
    (\<exists>i r. get_latest_otp st ?p = Some (i, r) \<and> \<not> OtpSession.verified r) \<longrightarrow>
      register_identity (Some st) now payload =
        (Inl (HTTPException 400 (Str ''Phone not verified via OTP'')), Some st)"
    using register_not_verified [of st payload now] by (auto simp: get_latest_otp_None)
  have b: "(\<exists>i r. get_latest_otp st ?p = Some (i, r) \<and> OtpSession.verified r) \<and>
    \<not> RegisterIdentityRequest.faith_affirmation payload \<longrightarrow>
      register_identity (Some st) now payload =
        (Inl (HTTPException 400 (Str ''Faith affirmation is required'')), Some st)"
    using register_no_affirmation [of st payload _ _ now] by blast
  have c: "(\<exists>i r. get_latest_otp st ?p = Some (i, r) \<and> OtpSession.verified r) \<and>
    RegisterIdentityRequest.faith_affirmation payload \<and>
    \<not> pass (kyc_rule_engine (RegisterIdentityRequest.country payload)
            (RegisterIdentityRequest.name payload) (RegisterIdentityRequest.email payload)) \<longrightarrow>
      register_identity (Some st) now payload =
        (Inl (HTTPException 400
            (Obj [(''message'', Str ''KYC checks failed''),
                  (''flags'', Arr (map Str (flags (kyc_rule_engine
                      (RegisterIdentityRequest.country payload)
                      (RegisterIdentityRequest.name payload)
                      (RegisterIdentityRequest.email payload)))))])), Some st)"
    using register_kyc_failed [of st payload _ _ now] by blast
  have d: "\<forall>e. fst (register_identity db now payload) = Inl e \<longrightarrow>
      snd (register_identity db now payload) = db"
    using register_error_unchanged [of db now payload] by blast
  from a b c d show ?thesis
    by blast
qed


theorem register_precondition_order_witness:
  "get_latest_otp example_store
     (normalize_phone (RegisterIdentityRequest.phone example_bad_request)) =
     Some (2, example_session) \<and>
   \<not> OtpSession.verified example_session \<and>
   register_identity (Some example_store) 300 example_bad_request =
     (Inl (HTTPException 400 (Str ''Phone not verified via OTP'')), Some example_store) \<and>
   get_latest_otp example_verified_store
     (normalize_phone (RegisterIdentityRequest.phone example_bad_request)) =
     Some (2, example_verified_session) \<and>
   OtpSession.verified example_verified_session \<and>
   \<not> RegisterIdentityRequest.faith_affirmation example_bad_request \<and>
   register_identity (Some example_verified_store) 300 example_bad_request =
     (Inl (HTTPException 400 (Str ''Faith affirmation is required'')),
      Some example_verified_store) \<and>
   snd (register_identity (Some example_verified_store) 300 example_bad_request) =
     Some example_verified_store \<and>
   register_identity (Some example_verified_store) 300
     (example_bad_request\<lparr>RegisterIdentityRequest.faith_affirmation := True\<rparr>) =
     (Inl (HTTPException 400
        (Obj [(''message'', Str ''KYC checks failed''),
              (''flags'', Arr [Str ''COUNTRY_UNSUPPORTED'', Str ''SUSPECT_NAME''])])),
      Some example_verified_store)"
proof -
  let ?affirmed = "example_bad_request\<lparr>RegisterIdentityRequest.faith_affirmation := True\<rparr>"
  have p: "normalize_phone (RegisterIdentityRequest.phone example_bad_request) = ''+2250700000001''"
    and p': "normalize_phone (RegisterIdentityRequest.phone ?affirmed) = ''+2250700000001''"
    by (simp_all add: example_bad_request_def example_norm)
  have l: "get_latest_otp example_store
     (normalize_phone (RegisterIdentityRequest.phone example_bad_request)) =
     Some (2, example_session)"
    by (simp add: p example_latest)
  have lv: "get_latest_otp example_verified_store
     (normalize_phone (RegisterIdentityRequest.phone example_bad_request)) =
     Some (2, example_verified_session)"
    and lv': "get_latest_otp example_verified_store
     (normalize_phone (RegisterIdentityRequest.phone ?affirmed)) =
     Some (2, example_verified_session)"
    by (simp_all add: p p' example_verified_latest)
  have nf: "\<not> RegisterIdentityRequest.faith_affirmation example_bad_request"
    and f': "RegisterIdentityRequest.faith_affirmation ?affirmed"
    by (simp_all add: example_bad_request_def)
  have k: "kyc_rule_engine (RegisterIdentityRequest.country ?affirmed)
          (RegisterIdentityRequest.name ?affirmed) (RegisterIdentityRequest.email ?affirmed) =
        \<lparr>pass = False, flags = [''COUNTRY_UNSUPPORTED'', ''SUSPECT_NAME'']\<rparr>"
    by (simp add: example_bad_request_def example_kyc_bad)
  from register_precondition_order [of example_store example_bad_request 300] l example_unverified
  have r1: "register_identity (Some example_store) 300 example_bad_request =
     (Inl (HTTPException 400 (Str ''Phone not verified via OTP'')), Some example_store)"
    by blast
  note w2 = register_precondition_order
    [of example_verified_store example_bad_request 300 "Some example_verified_store"]
  from w2 lv example_verified nf
  have r2: "register_identity (Some example_verified_store) 300 example_bad_request =
     (Inl (HTTPException 400 (Str ''Faith affirmation is required'')),
      Some example_verified_store)"
    by blast
  then have "fst (register_identity (Some example_verified_store) 300 example_bad_request) =
     Inl (HTTPException 400 (Str ''Faith affirmation is required''))"
    by simp
  with w2 have r2': "snd (register_identity (Some example_verified_store) 300 example_bad_request) =
     Some example_verified_store"
    by blast
  from register_precondition_order [of example_verified_store ?affirmed 300]
    lv' example_verified f' k
  have r3: "register_identity (Some example_verified_store) 300 ?affirmed =
     (Inl (HTTPException 400
        (Obj [(''message'', Str ''KYC checks failed''),
              (''flags'', Arr [Str ''COUNTRY_UNSUPPORTED'', Str ''SUSPECT_NAME''])])),
      Some example_verified_store)"
    by auto
  from l example_unverified r1 lv example_verified nf r2 r2' r3 show ?thesis
    by blast
qed

text \<open>
  C4, as amended. Take a phone whose latest session is verified and a request with
  \<open>faith_affirmation = True\<close> that passes the compliance check. When no identity exists for
  the phone, \<open>register_identity\<close> appends one and returns \<open>CREATED\<close>. When one exists, it
  returns \<open>UPDATED\<close> and sets \<open>name\<close>, \<open>email\<close>, \<open>country\<close>, \<open>faith_affirmation\<close> and
  \<open>updated_at\<close> of an existing identity of that phone in place, leaving its position, its
  phone and its \<open>created_at\<close> as they were. Hence two such registrations for the same
  phone, starting with no identity for it, return \<open>CREATED\<close> and then \<open>UPDATED\<close>, and
  afterwards exactly one identity has that phone; it carries the fields of the second
  request.
\<close>

theorem register_created_then_updated:
  "get_latest_otp st (normalize_phone (RegisterIdentityRequest.phone payload)) = Some (i, r) \<and>
   OtpSession.verified r \<and>
   RegisterIdentityRequest.faith_affirmation payload \<and>
   pass (kyc_rule_engine (RegisterIdentityRequest.country payload)
          (RegisterIdentityRequest.name payload) (RegisterIdentityRequest.email payload)) \<longrightarrow>
   ((\<forall>d \<in> set (identity st).
        Identity.phone d \<noteq> normalize_phone (RegisterIdentityRequest.phone payload)) \<longrightarrow>
      register_identity (Some st) now payload =
        (Inr (Obj [(''status'', Str ''CREATED''),
                   (''phone'', Str (normalize_phone (RegisterIdentityRequest.phone payload)))]),
         Some (st\<lparr>identity := identity st @
           [\<lparr>Identity.phone = normalize_phone (RegisterIdentityRequest.phone payload),
             Identity.name = RegisterIdentityRequest.name payload,
             Identity.email = RegisterIdentityRequest.email payload,
             Identity.country = RegisterIdentityRequest.country payload,
             Identity.faith_affirmation = RegisterIdentityRequest.faith_affirmation payload,
             Identity_doc.created_at = now,
             Identity_doc.updated_at = None\<rparr>]\<rparr>))) \<and>
   ((\<exists>d \<in> set (identity st).
        Identity.phone d = normalize_phone (RegisterIdentityRequest.phone payload)) \<longrightarrow>
      (\<exists>eid existing.
         eid < length (identity st) \<and> identity st ! eid = existing \<and>
         Identity.phone existing = normalize_phone (RegisterIdentityRequest.phone payload) \<and>
         register_identity (Some st) now payload =
           (Inr (Obj [(''status'', Str ''UPDATED''),
                      (''phone'', Str (normalize_phone (RegisterIdentityRequest.phone payload)))]),
            Some (st\<lparr>identity := (identity st)
              [eid := existing\<lparr>Identity.name := RegisterIdentityRequest.name payload,
                                Identity.email := RegisterIdentityRequest.email payload,
                                Identity.country := RegisterIdentityRequest.country payload,
                                Identity.faith_affirmation :=
                                  RegisterIdentityRequest.faith_affirmation payload,
                                Identity_doc.updated_at := Some now\<rparr>]\<rparr>)))) \<and>
   ((\<forall>d \<in> set (identity st).
        Identity.phone d \<noteq> normalize_phone (RegisterIdentityRequest.phone payload)) \<and>
    normalize_phone (RegisterIdentityRequest.phone payload2) =
      normalize_phone (RegisterIdentityRequest.phone payload) \<and>
    RegisterIdentityRequest.faith_affirmation payload2 \<and>
    pass (kyc_rule_engine (RegisterIdentityRequest.country payload2)
           (RegisterIdentityRequest.name payload2) (RegisterIdentityRequest.email payload2)) \<longrightarrow>
      (\<exists>st1 st2.
         register_identity (Some st) now payload =
           (Inr (Obj [(''status'', Str ''CREATED''),
                      (''phone'', Str (normalize_phone (RegisterIdentityRequest.phone payload)))]),
            Some st1) \<and>
         register_identity (Some st1) now2 payload2 =
           (Inr (Obj [(''status'', Str ''UPDATED''),
                      (''phone'', Str (normalize_phone (RegisterIdentityRequest.phone payload)))]),
            Some st2) \<and>
         identity st2 = identity st @
           [\<lparr>Identity.phone = normalize_phone (RegisterIdentityRequest.phone payload),
             Identity.name = RegisterIdentityRequest.name payload2,
             Identity.email = RegisterIdentityRequest.email payload2,
             Identity.country = RegisterIdentityRequest.country payload2,
             Identity.faith_affirmation = RegisterIdentityRequest.faith_affirmation payload2,
             Identity_doc.created_at = now,
             Identity_doc.updated_at = Some now2\<rparr>] \<and>
         length (filter (\<lambda>d. Identity.phone d =
                    normalize_phone (RegisterIdentityRequest.phone payload)) (identity st2)) = 1))"
proof (intro impI)
  let ?p = "normalize_phone (RegisterIdentityRequest.phone payload)"
  let ?new = "\<lparr>Identity.phone = ?p,
             Identity.name = RegisterIdentityRequest.name payload,
             Identity.email = RegisterIdentityRequest.email payload,
             Identity.country = RegisterIdentityRequest.country payload,
             Identity.faith_affirmation = RegisterIdentityRequest.faith_affirmation payload,
             Identity_doc.created_at = now,
             Identity_doc.updated_at = None\<rparr>"
  let ?new2 = "\<lparr>Identity.phone = ?p,
             Identity.name = RegisterIdentityRequest.name payload2,
             Identity.email = RegisterIdentityRequest.email payload2,
             Identity.country = RegisterIdentityRequest.country payload2,
             Identity.faith_affirmation = RegisterIdentityRequest.faith_affirmation payload2,
             Identity_doc.created_at = now,
             Identity_doc.updated_at = Some now2\<rparr>"
  let ?st1 = "st\<lparr>identity := identity st @ [?new]\<rparr>"
  assume h: "get_latest_otp st ?p = Some (i, r) \<and> OtpSession.verified r \<and>
   RegisterIdentityRequest.faith_affirmation payload \<and>
   pass (kyc_rule_engine (RegisterIdentityRequest.country payload)
          (RegisterIdentityRequest.name payload) (RegisterIdentityRequest.email payload))"
  then have l: "get_latest_otp st ?p = Some (i, r)" and v: "OtpSession.verified r"
    and f: "RegisterIdentityRequest.faith_affirmation payload"
    and k: "pass (kyc_rule_engine (RegisterIdentityRequest.country payload)
          (RegisterIdentityRequest.name payload) (RegisterIdentityRequest.email payload))"
    by blast+
  have created: "register_identity (Some st) now payload =
        (Inr (Obj [(''status'', Str ''CREATED''), (''phone'', Str ?p)]), Some ?st1)"
    if "\<forall>d \<in> set (identity st). Identity.phone d \<noteq> ?p"
    using l v f k that by (rule register_created)
  have updated: "\<exists>eid existing.
         eid < length (identity st) \<and> identity st ! eid = existing \<and>
         Identity.phone existing = ?p \<and>
         register_identity (Some st) now payload =
           (Inr (Obj [(''status'', Str ''UPDATED''), (''phone'', Str ?p)]),
            Some (st\<lparr>identity := (identity st)
              [eid := existing\<lparr>Identity.name := RegisterIdentityRequest.name payload,
                                Identity.email := RegisterIdentityRequest.email payload,
                                Identity.country := RegisterIdentityRequest.country payload,
                                Identity.faith_affirmation :=
                                  RegisterIdentityRequest.faith_affirmation payload,
                                Identity_doc.updated_at := Some now\<rparr>]\<rparr>))"
    if "\<exists>d \<in> set (identity st). Identity.phone d = ?p"
  proof -
    from that obtain eid existing
      where fo: "find_one (\<lambda>d. Identity.phone d = ?p) (identity st) = Some (eid, existing)"
      using find_one_exists [of "identity st" "\<lambda>d. Identity.phone d = ?p"] by blast
    from find_one_Some [OF fo] register_updated [OF l v f k fo, of now] show ?thesis
      by blast
  qed
  have twice: "\<exists>st1 st2.
         register_identity (Some st) now payload =
           (Inr (Obj [(''status'', Str ''CREATED''), (''phone'', Str ?p)]), Some st1) \<and>
         register_identity (Some st1) now2 payload2 =
           (Inr (Obj [(''status'', Str ''UPDATED''), (''phone'', Str ?p)]), Some st2) \<and>
         identity st2 = identity st @ [?new2] \<and>
         length (filter (\<lambda>d. Identity.phone d = ?p) (identity st2)) = 1"
    if g: "(\<forall>d \<in> set (identity st). Identity.phone d \<noteq> ?p) \<and>
      normalize_phone (RegisterIdentityRequest.phone payload2) = ?p \<and>
      RegisterIdentityRequest.faith_affirmation payload2 \<and>
      pass (kyc_rule_engine (RegisterIdentityRequest.country payload2)
           (RegisterIdentityRequest.name payload2) (RegisterIdentityRequest.email payload2))"
  proof -
    from g have none: "\<forall>d \<in> set (identity st). Identity.phone d \<noteq> ?p"
      and p2: "normalize_phone (RegisterIdentityRequest.phone payload2) = ?p"
      and f2: "RegisterIdentityRequest.faith_affirmation payload2"
      and k2: "pass (kyc_rule_engine (RegisterIdentityRequest.country payload2)
           (RegisterIdentityRequest.name payload2) (RegisterIdentityRequest.email payload2))"
      by blast+
    have c1: "register_identity (Some st) now payload =
        (Inr (Obj [(''status'', Str ''CREATED''), (''phone'', Str ?p)]), Some ?st1)"
      using none by (rule created)
    have l1: "get_latest_otp ?st1 (normalize_phone (RegisterIdentityRequest.phone payload2)) =
        Some (i, r)"
      by (simp add: p2 l get_latest_otp_identity_upd)
    have "find_one (\<lambda>d. Identity.phone d = ?p) (identity st @ [?new]) =
        Some (length (identity st), ?new)"
      using none by (intro find_one_snoc_new) simp_all
    then have fo1: "find_one (\<lambda>d. Identity.phone d =
          normalize_phone (RegisterIdentityRequest.phone payload2)) (identity ?st1) =
        Some (length (identity st), ?new)"
      by (simp add: p2)
    from register_updated [OF l1 v f2 k2 fo1, of now2]
    have c2: "register_identity (Some ?st1) now2 payload2 =
        (Inr (Obj [(''status'', Str ''UPDATED''), (''phone'', Str ?p)]),
         Some (st\<lparr>identity := identity st @ [?new2]\<rparr>))"
      by (simp add: p2)
    from none have "filter (\<lambda>d. Identity.phone d = ?p) (identity st) = []"
      by (simp add: filter_empty_conv)
    then have n: "length (filter (\<lambda>d. Identity.phone d = ?p)
        (identity (st\<lparr>identity := identity st @ [?new2]\<rparr>))) = 1"
      by simp
    from c1 c2 n show ?thesis
      by (intro exI [of _ ?st1] exI [of _ "st\<lparr>identity := identity st @ [?new2]\<rparr>"]) simp
  qed
  from created updated twice
  show "((\<forall>d \<in> set (identity st). Identity.phone d \<noteq> ?p) \<longrightarrow>
      register_identity (Some st) now payload =
        (Inr (Obj [(''status'', Str ''CREATED''), (''phone'', Str ?p)]), Some ?st1)) \<and>
   ((\<exists>d \<in> set (identity st). Identity.phone d = ?p) \<longrightarrow>
      (\<exists>eid existing.
         eid < length (identity st) \<and> identity st ! eid = existing \<and>
         Identity.phone existing = ?p \<and>
         register_identity (Some st) now payload =
           (Inr (Obj [(''status'', Str ''UPDATED''), (''phone'', Str ?p)]),
            Some (st\<lparr>identity := (identity st)
              [eid := existing\<lparr>Identity.name := RegisterIdentityRequest.name payload,
                                Identity.email := RegisterIdentityRequest.email payload,
                                Identity.country := RegisterIdentityRequest.country payload,
                                Identity.faith_affirmation :=
                                  RegisterIdentityRequest.faith_affirmation payload,
                                Identity_doc.updated_at := Some now\<rparr>]\<rparr>)))) \<and>
   ((\<forall>d \<in> set (identity st). Identity.phone d \<noteq> ?p) \<and>
    normalize_phone (RegisterIdentityRequest.phone payload2) = ?p \<and>
    RegisterIdentityRequest.faith_affirmation payload2 \<and>
    pass (kyc_rule_engine (RegisterIdentityRequest.country payload2)
           (RegisterIdentityRequest.name payload2) (RegisterIdentityRequest.email payload2)) \<longrightarrow>
      (\<exists>st1 st2.
         register_identity (Some st) now payload =
           (Inr (Obj [(''status'', Str ''CREATED''), (''phone'', Str ?p)]), Some st1) \<and>
         register_identity (Some st1) now2 payload2 =
           (Inr (Obj [(''status'', Str ''UPDATED''), (''phone'', Str ?p)]), Some st2) \<and>
         identity st2 = identity st @ [?new2] \<and>
         length (filter (\<lambda>d. Identity.phone d = ?p) (identity st2)) = 1))"
    by blast
qed


theorem register_created_then_updated_witness:
  "get_latest_otp example_verified_store
     (normalize_phone (RegisterIdentityRequest.phone example_request)) =
     Some (2, example_verified_session) \<and>
   OtpSession.verified example_verified_session \<and>
   RegisterIdentityRequest.faith_affirmation example_request \<and>
   pass (kyc_rule_engine (RegisterIdentityRequest.country example_request)
          (RegisterIdentityRequest.name example_request)
          (RegisterIdentityRequest.email example_request)) \<and>
   identity example_verified_store = [] \<and>
   normalize_phone (RegisterIdentityRequest.phone example_request2) =
     normalize_phone (RegisterIdentityRequest.phone example_request) \<and>
   RegisterIdentityRequest.faith_affirmation example_request2 \<and>
   pass (kyc_rule_engine (RegisterIdentityRequest.country example_request2)
          (RegisterIdentityRequest.name example_request2)
          (RegisterIdentityRequest.email example_request2)) \<and>
   (\<exists>st1 st2.
      register_identity (Some example_verified_store) 300 example_request =
        (Inr (Obj [(''status'', Str ''CREATED''), (''phone'', Str ''+2250700000001'')]),
         Some st1) \<and>
      identity st1 =
        [\<lparr>Identity.phone = ''+2250700000001'', Identity.name = ''Awa Kone'',
          Identity.email = ''awa@example.com'', Identity.country = Some ''CI'',
          Identity.faith_affirmation = True,
          Identity_doc.created_at = 300, Identity_doc.updated_at = None\<rparr>] \<and>
      register_identity (Some st1) 400 example_request2 =
        (Inr (Obj [(''status'', Str ''UPDATED''), (''phone'', Str ''+2250700000001'')]),
         Some st2) \<and>
      identity st2 =
        [\<lparr>Identity.phone = ''+2250700000001'', Identity.name = ''Awa K'',
          Identity.email = ''awa@example.com'', Identity.country = None,
          Identity.faith_affirmation = True,
          Identity_doc.created_at = 300, Identity_doc.updated_at = Some 400\<rparr>] \<and>
      length (filter (\<lambda>d. Identity.phone d = ''+2250700000001'') (identity st2)) = 1)"
proof -
  have l: "get_latest_otp example_verified_store
     (normalize_phone (RegisterIdentityRequest.phone example_request)) =
     Some (2, example_verified_session)"
    by (simp add: example_request_phone example_verified_latest)
  have f: "RegisterIdentityRequest.faith_affirmation example_request"
    and k: "pass (kyc_rule_engine (RegisterIdentityRequest.country example_request)
          (RegisterIdentityRequest.name example_request)
          (RegisterIdentityRequest.email example_request))"
    by (simp_all add: example_request_def example_kyc)
  have none: "\<forall>d \<in> set (identity example_verified_store).
      Identity.phone d \<noteq> normalize_phone (RegisterIdentityRequest.phone example_request)"
    by (simp add: example_no_identity)
  have p2: "normalize_phone (RegisterIdentityRequest.phone example_request2) =
     normalize_phone (RegisterIdentityRequest.phone example_request)"
    by (simp add: example_request_phone example_request2_def example_norm2)
  have f2: "RegisterIdentityRequest.faith_affirmation example_request2"
    and k2: "pass (kyc_rule_engine (RegisterIdentityRequest.country example_request2)
          (RegisterIdentityRequest.name example_request2)
          (RegisterIdentityRequest.email example_request2))"
    by (simp_all add: example_request2_def example_kyc2)
  note w = register_created_then_updated
    [of example_verified_store example_request 2 example_verified_session 300
        example_request2 400]
  from w l example_verified f k none p2 f2 k2
  obtain st1 st2 where
    c1: "register_identity (Some example_verified_store) 300 example_request =
        (Inr (Obj [(''status'', Str ''CREATED''),
           (''phone'', Str (normalize_phone (RegisterIdentityRequest.phone example_request)))]),
         Some st1)"
    and c2: "register_identity (Some st1) 400 example_request2 =
        (Inr (Obj [(''status'', Str ''UPDATED''),
           (''phone'', Str (normalize_phone (RegisterIdentityRequest.phone example_request)))]),
         Some st2)"
    and i2: "identity st2 = identity example_verified_store @
           [\<lparr>Identity.phone = normalize_phone (RegisterIdentityRequest.phone example_request),
             Identity.name = RegisterIdentityRequest.name example_request2,
             Identity.email = RegisterIdentityRequest.email example_request2,
             Identity.country = RegisterIdentityRequest.country example_request2,
             Identity.faith_affirmation = RegisterIdentityRequest.faith_affirmation example_request2,
             Identity_doc.created_at = 300,
             Identity_doc.updated_at = Some 400\<rparr>]"
    and n2: "length (filter (\<lambda>d. Identity.phone d =
                    normalize_phone (RegisterIdentityRequest.phone example_request))
               (identity st2)) = 1"
    by blast
  from w l example_verified f k none
  have "register_identity (Some example_verified_store) 300 example_request =
        (Inr (Obj [(''status'', Str ''CREATED''),
           (''phone'', Str (normalize_phone (RegisterIdentityRequest.phone example_request)))]),
         Some (example_verified_store\<lparr>identity := identity example_verified_store @
           [\<lparr>Identity.phone = normalize_phone (RegisterIdentityRequest.phone example_request),
             Identity.name = RegisterIdentityRequest.name example_request,
             Identity.email = RegisterIdentityRequest.email example_request,
             Identity.country = RegisterIdentityRequest.country example_request,
             Identity.faith_affirmation = RegisterIdentityRequest.faith_affirmation example_request,
             Identity_doc.created_at = 300,
             Identity_doc.updated_at = None\<rparr>]\<rparr>))"
    by blast
  with c1 have i1: "identity st1 =
        [\<lparr>Identity.phone = ''+2250700000001'', Identity.name = ''Awa Kone'',
          Identity.email = ''awa@example.com'', Identity.country = Some ''CI'',
          Identity.faith_affirmation = True,
          Identity_doc.created_at = 300, Identity_doc.updated_at = None\<rparr>]"
    by (auto simp: example_no_identity example_norm example_request_def)
  from i2 have i2': "identity st2 =
        [\<lparr>Identity.phone = ''+2250700000001'', Identity.name = ''Awa K'',
          Identity.email = ''awa@example.com'', Identity.country = None,
          Identity.faith_affirmation = True,
          Identity_doc.created_at = 300, Identity_doc.updated_at = Some 400\<rparr>]"
    by (simp add: example_no_identity example_request_phone example_request2_def)
  from c1 c2 i1 i2' n2 have "\<exists>st1 st2.
      register_identity (Some example_verified_store) 300 example_request =
        (Inr (Obj [(''status'', Str ''CREATED''), (''phone'', Str ''+2250700000001'')]),
         Some st1) \<and>
      identity st1 =
        [\<lparr>Identity.phone = ''+2250700000001'', Identity.name = ''Awa Kone'',
          Identity.email = ''awa@example.com'', Identity.country = Some ''CI'',
          Identity.faith_affirmation = True,
          Identity_doc.created_at = 300, Identity_doc.updated_at = None\<rparr>] \<and>
      register_identity (Some st1) 400 example_request2 =
        (Inr (Obj [(''status'', Str ''UPDATED''), (''phone'', Str ''+2250700000001'')]),
         Some st2) \<and>
      identity st2 =
        [\<lparr>Identity.phone = ''+2250700000001'', Identity.name = ''Awa K'',
          Identity.email = ''awa@example.com'', Identity.country = None,
          Identity.faith_affirmation = True,
          Identity_doc.created_at = 300, Identity_doc.updated_at = Some 400\<rparr>] \<and>
      length (filter (\<lambda>d. Identity.phone d = ''+2250700000001'') (identity st2)) = 1"
    by (intro exI [of _ st1] exI [of _ st2]) (simp add: example_request_phone)
  with l example_verified f k example_no_identity p2 f2 k2 show ?thesis
    by blast
qed

text \<open>
  C4 as stated, for every phone whose latest session is verified, fails for a request with
  \<open>faith_affirmation = False\<close>: the latest session is verified and no identity exists for
  the phone, yet the call returns 400 \<open>Faith affirmation is required\<close> instead of
  \<open>CREATED\<close> and inserts nothing.
\<close>

theorem register_created_counterexample:
  "get_latest_otp example_verified_store
     (normalize_phone (RegisterIdentityRequest.phone example_bad_request)) =
     Some (2, example_verified_session) \<and>
   OtpSession.verified example_verified_session \<and>
   identity example_verified_store = [] \<and>
   register_identity (Some example_verified_store) 300 example_bad_request =
     (Inl (HTTPException 400 (Str ''Faith affirmation is required'')),
      Some example_verified_store) \<and>
   fst (register_identity (Some example_verified_store) 300 example_bad_request) \<noteq>
     Inr (Obj [(''status'', Str ''CREATED''), (''phone'', Str ''+2250700000001'')])"
proof -
  have l: "get_latest_otp example_verified_store
     (normalize_phone (RegisterIdentityRequest.phone example_bad_request)) =
     Some (2, example_verified_session)"
    by (simp add: example_bad_request_def example_norm example_verified_latest)
  have f: "\<not> RegisterIdentityRequest.faith_affirmation example_bad_request"
    by (simp add: example_bad_request_def)
  from l example_verified f
  have r: "register_identity (Some example_verified_store) 300 example_bad_request =
     (Inl (HTTPException 400 (Str ''Faith affirmation is required'')),
      Some example_verified_store)"
    by (rule register_no_affirmation)
  from l example_verified example_no_identity r show ?thesis
    by simp
qed


text \<open>
  C9. \<open>register_identity\<close> reads only the \<open>verified\<close> flag of the latest session, never its
  \<open>expires_at\<close>. When the latest session of the phone is verified the call does not fail
  with \<open>Phone not verified via OTP\<close>, at any clock reading. In particular, when the clock
  reading is past the session's \<open>expires_at\<close> and the request affirms and passes the
  compliance check, the call succeeds with \<open>CREATED\<close> or \<open>UPDATED\<close>. No call of
  \<open>register_identity\<close> fails with \<open>OTP expired\<close>.
\<close>

theorem register_ignores_expiry:
  "(get_latest_otp st (normalize_phone (RegisterIdentityRequest.phone payload)) = Some (i, r) \<and>
    OtpSession.verified r \<longrightarrow>
      fst (register_identity (Some st) now payload) \<noteq>
        Inl (HTTPException 400 (Str ''Phone not verified via OTP''))) \<and>
   (get_latest_otp st (normalize_phone (RegisterIdentityRequest.phone payload)) = Some (i, r) \<and>
    OtpSession.verified r \<and> now > OtpSession.expires_at r \<and>
    RegisterIdentityRequest.faith_affirmation payload \<and>
    pass (kyc_rule_engine (RegisterIdentityRequest.country payload)
           (RegisterIdentityRequest.name payload) (RegisterIdentityRequest.email payload)) \<longrightarrow>
      (\<exists>status st'.
         register_identity (Some st) now payload =
           (Inr (Obj [(''status'', Str status),
                      (''phone'', Str (normalize_phone (RegisterIdentityRequest.phone payload)))]),
            Some st') \<and>
         (status = ''CREATED'' \<or> status = ''UPDATED''))) \<and>
   fst (register_identity db now payload) \<noteq> Inl (HTTPException 400 (Str ''OTP expired''))"
proof -
  let ?p = "normalize_phone (RegisterIdentityRequest.phone payload)"
  have a: "fst (register_identity (Some st) now payload) \<noteq>
        Inl (HTTPException 400 (Str ''Phone not verified via OTP''))"
    if "get_latest_otp st ?p = Some (i, r) \<and> OtpSession.verified r"
    using that by (auto simp: register_identity_unfold split: option.splits)
  have b: "\<exists>status st'.
         register_identity (Some st) now payload =
           (Inr (Obj [(''status'', Str status), (''phone'', Str ?p)]), Some st') \<and>
         (status = ''CREATED'' \<or> status = ''UPDATED'')"
    if h: "get_latest_otp st ?p = Some (i, r) \<and> OtpSession.verified r \<and>
      now > OtpSession.expires_at r \<and>
      RegisterIdentityRequest.faith_affirmation payload \<and>
      pass (kyc_rule_engine (RegisterIdentityRequest.country payload)
           (RegisterIdentityRequest.name payload) (RegisterIdentityRequest.email payload))"
  proof -
    from h have l: "get_latest_otp st ?p = Some (i, r)" and v: "OtpSession.verified r"
      and f: "RegisterIdentityRequest.faith_affirmation payload"
      and k: "pass (kyc_rule_engine (RegisterIdentityRequest.country payload)
           (RegisterIdentityRequest.name payload) (RegisterIdentityRequest.email payload))"
      by blast+
    show ?thesis
    proof (cases "find_one (\<lambda>d. Identity.phone d = ?p) (identity st)")
      case None
      with register_passes_gates [OF l v f k, of now] show ?thesis
        by simp
    next
      case (Some x)
      then obtain eid existing
        where "find_one (\<lambda>d. Identity.phone d = ?p) (identity st) = Some (eid, existing)"
        by (cases x) simp
      with register_passes_gates [OF l v f k, of now] show ?thesis
        by simp
    qed
  qed
  have c: "fst (register_identity db now payload) \<noteq> Inl (HTTPException 400 (Str ''OTP expired''))"
  proof (cases db)
    case None
    then show ?thesis by (simp add: register_identity_def)
  next
    case (Some s)
    then show ?thesis
      by (auto simp: register_identity_unfold split: option.splits if_splits)
  qed
  from a b c show ?thesis
    by blast
qed

theorem register_ignores_expiry_witness:
  "get_latest_otp example_verified_store
     (normalize_phone (RegisterIdentityRequest.phone example_request)) =
     Some (2, example_verified_session) \<and>
   OtpSession.verified example_verified_session \<and>
   400000000 > OtpSession.expires_at example_verified_session \<and>
   RegisterIdentityRequest.faith_affirmation example_request \<and>
   pass (kyc_rule_engine (RegisterIdentityRequest.country example_request)
          (RegisterIdentityRequest.name example_request)
          (RegisterIdentityRequest.email example_request)) \<and>
   fst (register_identity (Some example_verified_store) 400000000 example_request) \<noteq>
     Inl (HTTPException 400 (Str ''Phone not verified via OTP'')) \<and>
   (\<exists>status st'.
      register_identity (Some example_verified_store) 400000000 example_request =
        (Inr (Obj [(''status'', Str status), (''phone'', Str ''+2250700000001'')]), Some st') \<and>
      (status = ''CREATED'' \<or> status = ''UPDATED''))"
proof -
  have l: "get_latest_otp example_verified_store
     (normalize_phone (RegisterIdentityRequest.phone example_request)) =
     Some (2, example_verified_session)"
    by (simp add: example_request_phone example_verified_latest)
  have e: "400000000 > OtpSession.expires_at example_verified_session"
    by (simp add: example_verified_session_def example_session_def)
  have f: "RegisterIdentityRequest.faith_affirmation example_request"
    and k: "pass (kyc_rule_engine (RegisterIdentityRequest.country example_request)
          (RegisterIdentityRequest.name example_request)
          (RegisterIdentityRequest.email example_request))"
    by (simp_all add: example_request_def example_kyc)
  note w = register_ignores_expiry
    [of example_verified_store example_request 2 example_verified_session 400000000]
  from w l example_verified
  have g: "fst (register_identity (Some example_verified_store) 400000000 example_request) \<noteq>
     Inl (HTTPException 400 (Str ''Phone not verified via OTP''))"
    by blast
  from w l example_verified e f k
  have s: "\<exists>status st'.
      register_identity (Some example_verified_store) 400000000 example_request =
        (Inr (Obj [(''status'', Str status),
           (''phone'', Str (normalize_phone (RegisterIdentityRequest.phone example_request)))]),
         Some st') \<and>
      (status = ''CREATED'' \<or> status = ''UPDATED'')"
    by blast
  from l example_verified e f k g s show ?thesis
    by (simp add: example_request_phone)
qed

end
